theory Spec2Isabelle
  imports Main "HOL-Library.AList"
begin

section \<open>Python values and the operations the scraper applies to them\<close>

text \<open>
  The scraper handles two kinds of data: records it builds itself (videos, playlists,
  facts, ...) and values returned by \<^verbatim>\<open>json.loads\<close> on the language model's reply,
  whose shape the code does not control. The latter are modelled by the datatype below.
  A Python dict keeps insertion order, so an object is an association list; a dict made
  by \<^verbatim>\<open>json.loads\<close> has no duplicate keys, and lookup takes the first binding.
  A float is held as its Python \<^verbatim>\<open>repr\<close> text. A Python string is held as the
  list of the UTF-8 bytes of its code points. A string made by \<^verbatim>\<open>json.loads\<close> can
  hold a lone surrogate (from an escape such as \<^verbatim>\<open>\ud800\<close>), which UTF-8 does not
  encode; it is held as the three bytes the encoding scheme would give it, the first
  \<open>0xED\<close> and the second from \<open>0xA0\<close> to \<open>0xBF\<close>. Where the code counts or
  splits characters (a slice, a loop over a string) the model counts bytes, which is the
  same on ASCII text.
\<close>

datatype json =
    JNull
  | JBool bool
  | JInt int
  | JFloat string
  | JStr string
  | JArr "json list"
  | JObj "(string \<times> json) list"

text \<open>The exceptions that can leave the program, as values.\<close>

datatype py_error =
    AttributeError
  | TypeError
  | IndexError
  | HttpError
  | UnicodeEncodeError

text \<open>\<^verbatim>\<open>isinstance(x, dict)\<close>\<close>

fun isinstance_dict :: "json \<Rightarrow> bool" where
  "isinstance_dict (JObj kv) = True"
| "isinstance_dict _ = False"

text \<open>Python truthiness of a parsed value, as used by \<^verbatim>\<open>biz.get('name')\<close> in a condition.\<close>

fun truthy :: "json \<Rightarrow> bool" where
  "truthy JNull = False"
| "truthy (JBool b) = b"
| "truthy (JInt i) = (i \<noteq> 0)"
| "truthy (JFloat r) = (r \<noteq> ''0.0'' \<and> r \<noteq> ''-0.0'')"
| "truthy (JStr s) = (s \<noteq> [])"
| "truthy (JArr xs) = (xs \<noteq> [])"
| "truthy (JObj kv) = (kv \<noteq> [])"

text \<open>
  \<^verbatim>\<open>x.get(key, default)\<close>: \<open>dict_get\<close> is the method on the items of a dict;
  only a dict has the method, and on any other parsed value the attribute lookup raises
  AttributeError.
\<close>

definition dict_get :: "(string \<times> json) list \<Rightarrow> string \<Rightarrow> json \<Rightarrow> json" where
  "dict_get kv k d = (case map_of kv k of None \<Rightarrow> d | Some v \<Rightarrow> v)"

fun py_get :: "json \<Rightarrow> string \<Rightarrow> json \<Rightarrow> py_error + json" where
  "py_get (JObj kv) k d = Inr (dict_get kv k d)"
| "py_get _ k d = Inl AttributeError"

text \<open>Sequencing of steps that may raise: the first exception ends the computation.\<close>

definition and_then :: "py_error + 'a \<Rightarrow> ('a \<Rightarrow> py_error + 'b) \<Rightarrow> py_error + 'b" where
  "and_then m f = (case m of Inl e \<Rightarrow> Inl e | Inr x \<Rightarrow> f x)"

text \<open>
  \<^verbatim>\<open>for x in v\<close>: a list yields its elements, a dict its keys, a string its
  characters (each a string of length one); None, booleans and numbers are not iterable
  and raise TypeError.
\<close>

fun py_iter :: "json \<Rightarrow> py_error + json list" where
  "py_iter (JArr xs) = Inr xs"
| "py_iter (JObj kv) = Inr (map (\<lambda>(k, v). JStr k) kv)"
| "py_iter (JStr s) = Inr (map (\<lambda>c. JStr [c]) s)"
| "py_iter _ = Inl TypeError"

subsection \<open>\<^verbatim>\<open>str\<close> of a parsed value\<close>

text \<open>\<^verbatim>\<open>sep.join(xs)\<close>\<close>

fun join :: "string \<Rightarrow> string list \<Rightarrow> string" where
  "join sep [] = []"
| "join sep [x] = x"
| "join sep (x # y # ys) = x @ sep @ join sep (y # ys)"

definition digit_char :: "nat \<Rightarrow> char" where
  "digit_char d = ''0123456789'' ! d"

function str_nat :: "nat \<Rightarrow> string" where
  "str_nat n = (if n < 10 then [digit_char n] else str_nat (n div 10) @ [digit_char (n mod 10)])"
  by pat_completeness auto
termination
  by (relation "measure (\<lambda>n. n)") auto

definition str_int :: "int \<Rightarrow> string" where
  "str_int i = (if i < 0 then CHR ''-'' # str_nat (nat (- i)) else str_nat (nat i))"

text \<open>
  \<^verbatim>\<open>repr\<close> and \<^verbatim>\<open>str\<close> of a parsed value. The quoting that \<^verbatim>\<open>repr\<close>
  applies to a string (choice of quote character, escapes) is the interpreter's and is
  taken as the parameter \<open>quote\<close>. \<^verbatim>\<open>str\<close> of a string is the string itself; on
  every other parsed value \<^verbatim>\<open>str\<close> and \<^verbatim>\<open>repr\<close> agree.
\<close>

fun py_repr :: "(string \<Rightarrow> string) \<Rightarrow> json \<Rightarrow> string" where
  "py_repr quote JNull = ''None''"
| "py_repr quote (JBool b) = (if b then ''True'' else ''False'')"
| "py_repr quote (JInt i) = str_int i"
| "py_repr quote (JFloat r) = r"
| "py_repr quote (JStr s) = quote s"
| "py_repr quote (JArr xs) = ''['' @ join '', '' (map (py_repr quote) xs) @ '']''"
| "py_repr quote (JObj kv) =
     ''{'' @ join '', '' (map (\<lambda>(k, v). quote k @ '': '' @ py_repr quote v) kv) @ ''}''"

fun py_str :: "(string \<Rightarrow> string) \<Rightarrow> json \<Rightarrow> string" where
  "py_str quote (JStr s) = s"
| "py_str quote v = py_repr quote v"

section \<open>Category inference\<close>

text \<open>
  \<^verbatim>\<open>CATEGORY_KEYWORDS\<close>: a dict literal, iterated in insertion order by
  \<^verbatim>\<open>.items()\<close>.
\<close>

definition CATEGORY_KEYWORDS :: "(string \<times> string list) list" where
  "CATEGORY_KEYWORDS =
    [(''winter_survival'', [''winter'', ''cold'', ''snow'', ''ice'', ''freeze'', ''survival'', ''shelter'']),
     (''building'', [''build'', ''cabin'', ''construction'', ''sauna'', ''house'', ''shed'']),
     (''fishing'', [''fish'', ''fishing'', ''catch'', ''salmon'', ''trout'', ''halibut'']),
     (''camping'', [''camp'', ''camping'', ''tent'', ''outdoor'']),
     (''cooking'', [''cook'', ''recipe'', ''food'', ''meal'', ''eat'']),
     (''gear'', [''gear'', ''equipment'', ''review'', ''tool'']),
     (''alaska'', [''alaska'', ''wild'', ''wilderness'', ''adventure'']),
     (''family'', [''family'', ''kids'', ''boys''])]"

text \<open>
  \<^verbatim>\<open>str.lower()\<close> on ASCII text: the 26 capital letters go to their small
  letters, every other byte stays. (Python also lower-cases letters outside ASCII; the
  properties below do not depend on how \<open>lower\<close> treats them.)
\<close>

definition lower_char :: "char \<Rightarrow> char" where
  "lower_char c =
     (case map_of (zip ''ABCDEFGHIJKLMNOPQRSTUVWXYZ'' ''abcdefghijklmnopqrstuvwxyz'') c of
        Some l \<Rightarrow> l
      | None \<Rightarrow> c)"

definition lower :: "string \<Rightarrow> string" where
  "lower s = map lower_char s"

text \<open>\<^verbatim>\<open>kw in text\<close> on strings: \<open>kw\<close> occurs as a contiguous substring.\<close>

fun starts_with :: "string \<Rightarrow> string \<Rightarrow> bool" where
  "starts_with [] t = True"
| "starts_with (k # ks) [] = False"
| "starts_with (k # ks) (c # cs) = (k = c \<and> starts_with ks cs)"

fun str_in :: "string \<Rightarrow> string \<Rightarrow> bool" where
  "str_in kw [] = (kw = [])"
| "str_in kw (c # cs) = (starts_with kw (c # cs) \<or> str_in kw cs)"

text \<open>\<^verbatim>\<open>any(kw in text for kw in keywords)\<close>\<close>

fun any_kw_in :: "string list \<Rightarrow> string \<Rightarrow> bool" where
  "any_kw_in [] t = False"
| "any_kw_in (kw # kws) t = (str_in kw t \<or> any_kw_in kws t)"

text \<open>The loop over the table: return at the first category with a hit, else the default.\<close>

fun first_category :: "(string \<times> string list) list \<Rightarrow> string \<Rightarrow> string" where
  "first_category [] t = ''general''"
| "first_category ((category, keywords) # rest) t =
     (if any_kw_in keywords t then category else first_category rest t)"

definition infer_category :: "string \<Rightarrow> string \<Rightarrow> string" where
  "infer_category title description =
     first_category CATEGORY_KEYWORDS (lower (title @ '' '' @ description))"

section \<open>The data model\<close>

record video =
  video_id :: string
  title :: string
  description :: string
  published_at :: string
  playlist_id :: string

record playlist =
  pl_id :: string
  pl_title :: string
  pl_description :: string
  pl_video_count :: int
  pl_category :: string

record transcript =
  tr_video_id :: string
  segments :: "string list"
  full_text :: string

text \<open>
  The records the aggregator synthesises. A field that the code copies from the model's
  output without looking at it keeps the type \<open>json\<close>.
\<close>

record fact =
  fact_id :: string
  fact_type :: string
  content :: json
  category :: string
  videoId :: string
  videoTitle :: string
  tags :: "string list"

record joke =
  joke_id :: string
  punchline :: json
  joke_context :: string
  joke_videoId :: string
  joke_videoTitle :: string

record recipe =
  recipe_id :: string
  recipe_name :: json
  recipe_description :: string
  ingredients :: json
  steps :: json
  cookingMethod :: json
  recipe_videoId :: string
  recipe_videoTitle :: string

record business =
  biz_id :: string
  biz_name :: json
  biz_type :: json
  location :: json
  contact :: json
  website :: json
  videoReferences :: "(string \<times> string) list"
  biz_description :: string

record category_entry =
  cat_id :: string
  cat_name :: string
  cat_description :: string
  playlistId :: string
  cat_category :: string
  factCount :: int

record metadata =
  lastUpdated :: string
  totalVideos :: int
  totalFacts :: int
  version :: string
  channelName :: string

section \<open>The outside world\<close>

text \<open>
  One request of a paginated listing: \<^verbatim>\<open>request.execute()\<close> either raises, or
  returns a page of items together with what \<^verbatim>\<open>list_next\<close> gives for it: the next
  request, or None at the end.
\<close>

datatype 'a request =
    Raises py_error
  | Page "'a list" "'a request option"

text \<open>The fields the fetchers read from an item of a listing.\<close>

record playlist_item =
  item_id :: string
  item_title :: string
  item_description :: "string option"
  item_count :: int

record video_item =
  item_video_id :: string
  item_video_title :: string
  item_video_description :: "string option"
  item_published_at :: string

text \<open>
  The two prompts sent to the language model, by the data the prompt text is built from:
  the title, the first 500 characters of the description and the first 12000 characters
  of the transcript; or the description alone.
\<close>

datatype prompt =
    ExtractionPrompt string string string
  | BusinessPrompt string

text \<open>
  What happens inside the \<^verbatim>\<open>try\<close> block of an extraction: the request (or reading
  the reply's text) raises; or the text is one \<^verbatim>\<open>json.loads\<close> rejects; or the text
  parses to a value.
\<close>

datatype llm_response =
    CallFails
  | Unparseable
  | Parses json

text \<open>
  The scraper object: the video platform client, by the outcomes of its three listings,
  and the language-model client, None when no credential was given.
\<close>

record scraper =
  youtube_playlists :: "playlist_item request"
  youtube_channels :: "py_error + string list"
  youtube_playlist_items :: "string \<Rightarrow> video_item request"
  anthropic :: "(prompt \<Rightarrow> llm_response) option"

text \<open>
  Library functions the module imports: \<^verbatim>\<open>hashlib.md5(...).hexdigest()\<close> on
  bytes, the quoting of \<^verbatim>\<open>repr\<close> on strings, the transcript service (the texts of the
  segments, None when it raises) and \<^verbatim>\<open>datetime.now().isoformat()\<close>.
\<close>

record pylib =
  md5_hexdigest :: "string \<Rightarrow> string"
  repr_quote :: "string \<Rightarrow> string"
  transcript_api :: "string \<Rightarrow> string list option"
  now_isoformat :: string

section \<open>The scraper's methods\<close>

text \<open>\<^verbatim>\<open>get_channel_playlists\<close>: the loop over the pages, appending to \<open>playlists\<close>.\<close>

definition playlist_of_item :: "playlist_item \<Rightarrow> playlist" where
  "playlist_of_item item =
     \<lparr>pl_id = item_id item,
      pl_title = item_title item,
      pl_description = (case item_description item of None \<Rightarrow> [] | Some d \<Rightarrow> d),
      pl_video_count = item_count item,
      pl_category = infer_category (item_title item) []\<rparr>"

fun playlists_loop :: "playlist_item request \<Rightarrow> playlist list \<Rightarrow> py_error + playlist list" where
  "playlists_loop (Raises e) playlists = Inl e"
| "playlists_loop (Page items nxt) playlists =
     (case nxt of
        None \<Rightarrow> Inr (playlists @ map playlist_of_item items)
      | Some request \<Rightarrow> playlists_loop request (playlists @ map playlist_of_item items))"

definition get_channel_playlists :: "scraper \<Rightarrow> py_error + playlist list" where
  "get_channel_playlists sc = playlists_loop (youtube_playlists sc) []"

text \<open>\<^verbatim>\<open>get_playlist_videos\<close>\<close>

definition video_of_item :: "string \<Rightarrow> video_item \<Rightarrow> video" where
  "video_of_item pid item =
     \<lparr>video_id = item_video_id item,
      title = item_video_title item,
      description = (case item_video_description item of None \<Rightarrow> [] | Some d \<Rightarrow> d),
      published_at = item_published_at item,
      playlist_id = pid\<rparr>"

fun videos_loop :: "string \<Rightarrow> video_item request \<Rightarrow> video list \<Rightarrow> py_error + video list" where
  "videos_loop pid (Raises e) videos = Inl e"
| "videos_loop pid (Page items nxt) videos =
     (case nxt of
        None \<Rightarrow> Inr (videos @ map (video_of_item pid) items)
      | Some request \<Rightarrow> videos_loop pid request (videos @ map (video_of_item pid) items))"

definition get_playlist_videos :: "scraper \<Rightarrow> string \<Rightarrow> py_error + video list" where
  "get_playlist_videos sc pid = videos_loop pid (youtube_playlist_items sc pid) []"

text \<open>
  \<^verbatim>\<open>get_all_channel_videos\<close>: the channel listing gives the uploads playlist of its
  first item (IndexError when there is none), whose videos are then listed.
\<close>

definition get_all_channel_videos :: "scraper \<Rightarrow> py_error + video list" where
  "get_all_channel_videos sc =
     and_then (youtube_channels sc) (\<lambda>uploads.
       case uploads of
         [] \<Rightarrow> Inl IndexError
       | uploads_playlist_id # _ \<Rightarrow> get_playlist_videos sc uploads_playlist_id)"

text \<open>\<^verbatim>\<open>get_transcript\<close>: any exception is caught and None returned.\<close>

definition get_transcript :: "pylib \<Rightarrow> string \<Rightarrow> transcript option" where
  "get_transcript lib vid =
     (case transcript_api lib vid of
        None \<Rightarrow> None
      | Some transcript_list \<Rightarrow>
          Some \<lparr>tr_video_id = vid, segments = transcript_list,
                full_text = join '' '' transcript_list\<rparr>)"

text \<open>The dict both the missing-credential branch and the except branch return.\<close>

definition empty_extraction :: json where
  "empty_extraction =
     JObj [(''facts'', JArr []), (''jokes'', JArr []), (''businesses'', JArr []),
           (''recipes'', JArr [])]"

text \<open>
  \<^verbatim>\<open>extract_facts_with_llm\<close>: whatever \<^verbatim>\<open>json.loads\<close> returns is returned as it
  is; the empty dict above is returned without a client, and when anything in the
  \<^verbatim>\<open>try\<close> block raises.
\<close>

definition extract_facts_with_llm :: "scraper \<Rightarrow> video \<Rightarrow> string \<Rightarrow> json" where
  "extract_facts_with_llm sc v transcript_text =
     (case anthropic sc of
        None \<Rightarrow> empty_extraction
      | Some client \<Rightarrow>
          (case client (ExtractionPrompt (title v) (take 500 (description v))
                          (take 12000 transcript_text)) of
             Parses j \<Rightarrow> j
           | _ \<Rightarrow> empty_extraction))"

text \<open>\<^verbatim>\<open>extract_businesses_from_description\<close>\<close>

definition extract_businesses_from_description :: "scraper \<Rightarrow> string \<Rightarrow> json" where
  "extract_businesses_from_description sc descr =
     (case anthropic sc of
        None \<Rightarrow> JArr []
      | Some client \<Rightarrow>
          (case client (BusinessPrompt descr) of
             Parses j \<Rightarrow> j
           | _ \<Rightarrow> JArr []))"

section \<open>Building the knowledge base\<close>

text \<open>
  \<^verbatim>\<open>content.encode()\<close> on a string: the UTF-8 bytes, which are the bytes that hold
  the string here; a lone surrogate cannot be encoded and raises UnicodeEncodeError. In
  well-formed text the byte \<open>0xED\<close> starts a three-byte sequence whose second byte is
  below \<open>0xA0\<close> unless the code point is a surrogate.
\<close>

fun has_surrogate :: "string \<Rightarrow> bool" where
  "has_surrogate (c # d # cs) =
     ((c = CHR 0xED \<and> 160 \<le> (of_char d :: nat) \<and> (of_char d :: nat) \<le> 191)
      \<or> has_surrogate (d # cs))"
| "has_surrogate _ = False"

definition str_encode :: "string \<Rightarrow> py_error + string" where
  "str_encode s = (if has_surrogate s then Inl UnicodeEncodeError else Inr s)"

text \<open>
  \<^verbatim>\<open>generate_id\<close>: \<^verbatim>\<open>content.encode()\<close> exists on a string only, so any other
  parsed value raises AttributeError; the string is encoded, which can raise, and of the
  digest of the bytes the first 12 characters are kept.
\<close>

fun generate_id :: "pylib \<Rightarrow> json \<Rightarrow> py_error + string" where
  "generate_id lib (JStr s) =
     and_then (str_encode s) (\<lambda>bytes. Inr (take 12 (md5_hexdigest lib bytes)))"
| "generate_id lib _ = Inl AttributeError"

text \<open>The collections the run accumulates.\<close>

record kb_state =
  all_facts :: "fact list"
  all_businesses :: "business list"
  all_jokes :: "joke list"
  all_recipes :: "recipe list"
  categories :: "(string \<times> category_entry) list"

text \<open>\<^verbatim>\<open>for x in extracted.get(key, [])\<close>: the items the loop will visit.\<close>

definition items_of :: "json \<Rightarrow> string \<Rightarrow> py_error + json list" where
  "items_of extracted key = and_then (py_get extracted key (JArr [])) py_iter"

text \<open>
  The loops over survival tips, building techniques, life lessons and fishing tips have
  one shape: each item gets a record with its content hash as id, and the type, category
  and tags of the loop.
\<close>

fun facts_loop ::
  "pylib \<Rightarrow> video \<Rightarrow> string \<Rightarrow> string \<Rightarrow> string list \<Rightarrow> json list \<Rightarrow> fact list
     \<Rightarrow> py_error + fact list" where
  "facts_loop lib v ty cat tgs [] facts = Inr facts"
| "facts_loop lib v ty cat tgs (tip # tips) facts =
     and_then (generate_id lib tip) (\<lambda>i.
       facts_loop lib v ty cat tgs tips
         (facts @ [\<lparr>fact_id = i, fact_type = ty, content = tip, category = cat,
                    videoId = video_id v, videoTitle = title v, tags = tgs\<rparr>]))"

text \<open>
  The gear loop: a dict is formatted from three of its fields, anything else goes through
  \<^verbatim>\<open>str\<close>; a record is appended in both cases.
\<close>

definition gear_content :: "pylib \<Rightarrow> json \<Rightarrow> string" where
  "gear_content lib gear =
     (case gear of
        JObj kv \<Rightarrow>
          py_str (repr_quote lib) (dict_get kv ''name'' (JStr ''Unknown'')) @ '': '' @
          py_str (repr_quote lib) (dict_get kv ''use'' (JStr [])) @ '' - '' @
          py_str (repr_quote lib) (dict_get kv ''recommendation'' (JStr []))
      | _ \<Rightarrow> py_str (repr_quote lib) gear)"

fun gear_loop :: "pylib \<Rightarrow> video \<Rightarrow> json list \<Rightarrow> fact list \<Rightarrow> py_error + fact list" where
  "gear_loop lib v [] facts = Inr facts"
| "gear_loop lib v (gear # gears) facts =
     and_then (generate_id lib (JStr (gear_content lib gear))) (\<lambda>i.
       gear_loop lib v gears
         (facts @ [\<lparr>fact_id = i, fact_type = ''gear'', content = JStr (gear_content lib gear),
                    category = ''gear'', videoId = video_id v, videoTitle = title v,
                    tags = [''gear'', ''equipment'']\<rparr>]))"

text \<open>The dad jokes loop.\<close>

fun jokes_loop :: "pylib \<Rightarrow> video \<Rightarrow> json list \<Rightarrow> joke list \<Rightarrow> py_error + joke list" where
  "jokes_loop lib v [] jokes = Inr jokes"
| "jokes_loop lib v (j # js) jokes =
     and_then (generate_id lib j) (\<lambda>i.
       jokes_loop lib v js
         (jokes @ [\<lparr>joke_id = i, punchline = j, joke_context = title v,
                    joke_videoId = video_id v, joke_videoTitle = title v\<rparr>]))"

text \<open>The recipes loop: only a dict gets a record; the \<^verbatim>\<open>if\<close> has no else branch.\<close>

fun recipes_loop :: "pylib \<Rightarrow> video \<Rightarrow> json list \<Rightarrow> recipe list \<Rightarrow> py_error + recipe list" where
  "recipes_loop lib v [] recipes = Inr recipes"
| "recipes_loop lib v (r # rs) recipes =
     (case r of
        JObj kv \<Rightarrow>
          and_then (generate_id lib (dict_get kv ''name'' (JStr []))) (\<lambda>i.
            recipes_loop lib v rs
              (recipes @ [\<lparr>recipe_id = i,
                           recipe_name = dict_get kv ''name'' (JStr ''Unknown Recipe''),
                           recipe_description = ''From '' @ title v,
                           ingredients = dict_get kv ''ingredients'' (JArr []),
                           steps = dict_get kv ''steps'' (JArr []),
                           cookingMethod = dict_get kv ''cooking_method'' (JStr ''campfire''),
                           recipe_videoId = video_id v, recipe_videoTitle = title v\<rparr>]))
      | _ \<Rightarrow> recipes_loop lib v rs recipes)"

text \<open>
  The two business loops differ in the text put before the title in the description
  field only; \<open>biz.get('name')\<close> without a default gives None for a missing key.
\<close>

fun businesses_loop ::
  "pylib \<Rightarrow> video \<Rightarrow> string \<Rightarrow> json list \<Rightarrow> business list \<Rightarrow> py_error + business list" where
  "businesses_loop lib v pre [] businesses = Inr businesses"
| "businesses_loop lib v pre (biz # bizs) businesses =
     (case biz of
        JObj kv \<Rightarrow>
          if truthy (dict_get kv ''name'' JNull) then
            and_then (generate_id lib (dict_get kv ''name'' (JStr []))) (\<lambda>i.
              businesses_loop lib v pre bizs
                (businesses @ [\<lparr>biz_id = i,
                                biz_name = dict_get kv ''name'' (JStr []),
                                biz_type = dict_get kv ''type'' (JStr ''other''),
                                location = dict_get kv ''location'' (JStr []),
                                contact = dict_get kv ''contact'' (JStr []),
                                website = dict_get kv ''website'' (JStr []),
                                videoReferences = [(video_id v, title v)],
                                biz_description = pre @ title v\<rparr>]))
          else businesses_loop lib v pre bizs businesses
      | _ \<Rightarrow> businesses_loop lib v pre bizs businesses)"

text \<open>
  The body of the loop over the videos. Without a transcript the video is skipped
  (\<^verbatim>\<open>continue\<close>); a transcript dict is never empty, so only None is skipped. An
  exception raised in the body is not caught anywhere and ends the run.
\<close>

definition process_video :: "pylib \<Rightarrow> scraper \<Rightarrow> kb_state \<Rightarrow> video \<Rightarrow> py_error + kb_state" where
  "process_video lib sc st v =
     (case get_transcript lib (video_id v) of
        None \<Rightarrow> Inr st
      | Some transcript_data \<Rightarrow>
          (let extracted = extract_facts_with_llm sc v (full_text transcript_data);
               cat = infer_category (title v) (description v)
           in
           and_then (items_of extracted ''survival_tips'') (\<lambda>tips.
           and_then (facts_loop lib v ''survival_tip'' cat [''survival'', cat] tips (all_facts st)) (\<lambda>f1.
           and_then (items_of extracted ''building_techniques'') (\<lambda>techs.
           and_then (facts_loop lib v ''building_technique'' ''building''
                       [''building'', ''construction''] techs f1) (\<lambda>f2.
           and_then (items_of extracted ''life_lessons'') (\<lambda>lessons.
           and_then (facts_loop lib v ''life_lesson'' ''life_lessons''
                       [''wisdom'', ''philosophy''] lessons f2) (\<lambda>f3.
           and_then (items_of extracted ''fishing_tips'') (\<lambda>ftips.
           and_then (facts_loop lib v ''fishing_tip'' ''fishing'' [''fishing''] ftips f3) (\<lambda>f4.
           and_then (items_of extracted ''gear_recommendations'') (\<lambda>gears.
           and_then (gear_loop lib v gears f4) (\<lambda>f5.
           and_then (items_of extracted ''dad_jokes'') (\<lambda>js.
           and_then (jokes_loop lib v js (all_jokes st)) (\<lambda>jokes.
           and_then (items_of extracted ''recipes'') (\<lambda>rs.
           and_then (recipes_loop lib v rs (all_recipes st)) (\<lambda>recipes.
           and_then (items_of extracted ''businesses_mentioned'') (\<lambda>bizs.
           and_then (businesses_loop lib v ''Mentioned in '' bizs (all_businesses st)) (\<lambda>b1.
           and_then (py_iter (extract_businesses_from_description sc (description v))) (\<lambda>desc_businesses.
           and_then (businesses_loop lib v ''From video description: '' desc_businesses b1) (\<lambda>b2.
             Inr (st\<lparr>all_facts := f5, all_businesses := b2, all_jokes := jokes,
                       all_recipes := recipes\<rparr>)))))))))))))))))))))"

fun process_videos :: "pylib \<Rightarrow> scraper \<Rightarrow> kb_state \<Rightarrow> video list \<Rightarrow> py_error + kb_state" where
  "process_videos lib sc st [] = Inr st"
| "process_videos lib sc st (v # vs) =
     and_then (process_video lib sc st v) (\<lambda>st'. process_videos lib sc st' vs)"

text \<open>
  \<^verbatim>\<open>xs[:n]\<close>: the first \<open>n\<close> elements for \<open>n \<ge> 0\<close>; for a negative \<open>n\<close>
  all but the last \<open>-n\<close>.
\<close>

definition slice_to :: "int \<Rightarrow> 'a list \<Rightarrow> 'a list" where
  "slice_to n xs = (if 0 \<le> n then take (nat n) xs else take (length xs - nat (- n)) xs)"

text \<open>
  \<^verbatim>\<open>categories[p['id']] = {...}\<close> for each playlist: an assignment to a key already
  in the dict replaces its value in place, a new key goes to the end.
\<close>

definition category_of_playlist :: "playlist \<Rightarrow> category_entry" where
  "category_of_playlist p =
     \<lparr>cat_id = pl_id p, cat_name = pl_title p, cat_description = pl_description p,
      playlistId = pl_id p, cat_category = pl_category p, factCount = 0\<rparr>"

fun categories_loop ::
  "playlist list \<Rightarrow> (string \<times> category_entry) list \<Rightarrow> (string \<times> category_entry) list" where
  "categories_loop [] cats = cats"
| "categories_loop (p # ps) cats =
     categories_loop ps (AList.update (pl_id p) (category_of_playlist p) cats)"

text \<open>What the run writes: the contents of the six files.\<close>

record kb_output =
  metadata_json :: metadata
  categories_json :: "category_entry list"
  facts_json :: "fact list"
  businesses_json :: "business list"
  jokes_json :: "joke list"
  recipes_json :: "recipe list"

text \<open>
  \<^verbatim>\<open>build_knowledge_base\<close>. Nothing is written before the loop over the videos has
  ended, so a run that raises writes no file: its result is the exception. Creating the
  directory and writing the files are taken to succeed; printing and sleeping are left
  out.
\<close>

definition build_knowledge_base :: "pylib \<Rightarrow> scraper \<Rightarrow> int \<Rightarrow> py_error + kb_output" where
  "build_knowledge_base lib sc max_videos =
     and_then (get_channel_playlists sc) (\<lambda>playlists.
     and_then (get_all_channel_videos sc) (\<lambda>uploads.
       (let videos = slice_to max_videos uploads in
        and_then (process_videos lib sc
                    \<lparr>all_facts = [], all_businesses = [], all_jokes = [], all_recipes = [],
                     categories = categories_loop playlists []\<rparr> videos) (\<lambda>st.
          Inr \<lparr>metadata_json =
                  \<lparr>lastUpdated = now_isoformat lib,
                   totalVideos = int (length videos),
                   totalFacts = int (length (all_facts st)),
                   version = ''1.0.0'',
                   channelName = ''Outdoor Boys''\<rparr>,
                categories_json = map snd (categories st),
                facts_json = all_facts st,
                businesses_json = all_businesses st,
                jokes_json = all_jokes st,
                recipes_json = all_recipes st\<rparr>))))"

text \<open>
  \<^verbatim>\<open>OutdoorBoysScraper.__init__\<close> makes a language-model client only for a key that
  is given and not empty.
\<close>

definition make_anthropic ::
  "string option \<Rightarrow> (prompt \<Rightarrow> llm_response) \<Rightarrow> (prompt \<Rightarrow> llm_response) option" where
  "make_anthropic anthropic_api_key client =
     (case anthropic_api_key of
        None \<Rightarrow> None
      | Some k \<Rightarrow> if k = [] then None else Some client)"

section \<open>Notions used to state the properties\<close>

text \<open>A keyword occurs in a text when the text is some prefix, the keyword, some suffix.\<close>

definition occurs_in :: "string \<Rightarrow> string \<Rightarrow> bool" where
  "occurs_in kw t = (\<exists>ps ss. t = ps @ kw @ ss)"

text \<open>An entry of the keyword table has a hit in a text when one of its keywords occurs.\<close>

definition has_hit :: "string \<Rightarrow> string \<times> string list \<Rightarrow> bool" where
  "has_hit t entry = (\<exists>kw \<in> set (snd entry). occurs_in kw t)"

text \<open>
  The outcomes of the successive pages of a listing, in order: the items of each page that
  was returned, and the exception at which the listing stops, if any.
\<close>

fun pages :: "'a request \<Rightarrow> (py_error + 'a list) list" where
  "pages (Raises e) = [Inl e]"
| "pages (Page items None) = [Inr items]"
| "pages (Page items (Some request)) = Inr items # pages request"

section \<open>A small run, for instances of the properties\<close>

text \<open>
  A library whose digest function is MD5 on the strings the examples hash, a transcript
  service that knows two of three videos, a channel with two playlists (on two pages) and
  three uploads, and language-model clients that give one fixed reply to each of the two
  prompts.
\<close>

definition demo_md5 :: "string \<Rightarrow> string" where
  "demo_md5 s =
     (case map_of
        [(''drink the first melt, not the ice'', ''955c16aeb86ab35d80b3f026f3772d2a''),
         (''axe'', ''c89ee4a2c9dcae6581ca53bff9aa4ee5''),
         (''Kenai Charters'', ''3d94914db8a0e05df766b35718f58505''),
         (''[3, None]'', ''4203603ede7b82ce257e078855489d29''),
         (''axe: 3 - '', ''a230b96565ac6047890a94dfc9e8639f''),
         ([], ''d41d8cd98f00b204e9800998ecf8427e'')] s of
        Some d \<Rightarrow> d
      | None \<Rightarrow> replicate 32 (CHR ''0''))"

definition demo_lib :: pylib where
  "demo_lib =
     \<lparr>md5_hexdigest = demo_md5,
      repr_quote = (\<lambda>s. CHR 0x27 # s @ [CHR 0x27]),
      transcript_api = map_of [(''vid1'', [''melt snow'', ''then drink'']), (''vid3'', [''hello''])],
      now_isoformat = ''2024-01-01T00:00:00''\<rparr>"

definition demo_video :: "string \<Rightarrow> string \<Rightarrow> string \<Rightarrow> video" where
  "demo_video vid ttl descr =
     \<lparr>video_id = vid, title = ttl, description = descr,
      published_at = ''2023-12-01T00:00:00Z'', playlist_id = ''UU1''\<rparr>"

definition demo_scraper :: "(prompt \<Rightarrow> llm_response) option \<Rightarrow> scraper" where
  "demo_scraper client =
     \<lparr>youtube_playlists =
        Page [\<lparr>item_id = ''PL1'', item_title = ''Winter Camping'', item_description = None,
               item_count = 4\<rparr>]
          (Some (Page [\<lparr>item_id = ''PL2'', item_title = ''Catch and Cook'',
                        item_description = Some ''Fishing trips'', item_count = 7\<rparr>] None)),
      youtube_channels = Inr [''UU1''],
      youtube_playlist_items =
        (\<lambda>pid. Page [\<lparr>item_video_id = ''vid1'', item_video_title = ''Trip'',
                       item_video_description = Some ''snow'',
                       item_published_at = ''2023-12-01T00:00:00Z''\<rparr>,
                      \<lparr>item_video_id = ''vid2'', item_video_title = ''Cabin'',
                       item_video_description = None,
                       item_published_at = ''2023-12-01T00:00:00Z''\<rparr>,
                      \<lparr>item_video_id = ''vid3'', item_video_title = ''Halibut'',
                       item_video_description = Some ''Kenai Charters'',
                       item_published_at = ''2023-12-01T00:00:00Z''\<rparr>] None),
      anthropic = client\<rparr>"

definition client_of :: "llm_response \<Rightarrow> llm_response \<Rightarrow> prompt \<Rightarrow> llm_response" where
  "client_of extraction_reply business_reply p =
     (case p of
        ExtractionPrompt ttl descr transcript_text \<Rightarrow> extraction_reply
      | BusinessPrompt descr \<Rightarrow> business_reply)"

definition demo_extraction :: json where
  "demo_extraction =
     JObj [(''survival_tips'', JArr [JStr ''drink the first melt, not the ice'']),
           (''gear_recommendations'', JArr [JStr ''axe'']),
           (''recipes'', JArr [JStr ''stew'']),
           (''businesses_mentioned'', JArr [JObj [(''name'', JStr ''Kenai Charters'')]])]"

definition empty_state :: kb_state where
  "empty_state =
     \<lparr>all_facts = [], all_businesses = [], all_jokes = [], all_recipes = [], categories = []\<rparr>"

section \<open>Category inference returns the first category with a hit\<close>

lemma starts_with_iff: "starts_with k t \<longleftrightarrow> (\<exists>ss. t = k @ ss)"
  by (induction k t rule: starts_with.induct) auto

lemma str_in_iff: "str_in kw t \<longleftrightarrow> occurs_in kw t"
  unfolding occurs_in_def
proof (induction t)
  case Nil
  then show ?case by auto
next
  case (Cons c cs)
  show ?case
  proof
    assume "str_in kw (c # cs)"
    then consider "starts_with kw (c # cs)" | "str_in kw cs" by auto
    then show "\<exists>ps ss. c # cs = ps @ kw @ ss"
    proof cases
      case 1
      then obtain ss where "c # cs = kw @ ss" using starts_with_iff by blast
      then have "c # cs = [] @ kw @ ss" by simp
      then show ?thesis by blast
    next
      case 2
      then obtain ps ss where "cs = ps @ kw @ ss" using Cons.IH by blast
      then have "c # cs = (c # ps) @ kw @ ss" by simp
      then show ?thesis by blast
    qed
  next
    assume "\<exists>ps ss. c # cs = ps @ kw @ ss"
    then obtain ps ss where e: "c # cs = ps @ kw @ ss" by blast
    show "str_in kw (c # cs)"
    proof (cases ps)
      case Nil
      then have "starts_with kw (c # cs)" using e starts_with_iff by auto
      then show ?thesis by simp
    next
      case (Cons p ps')
      then have "cs = ps' @ kw @ ss" using e by simp
      then have "str_in kw cs" using Cons.IH by blast
      then show ?thesis by simp
    qed
  qed
qed

lemma any_kw_in_iff: "any_kw_in kws t \<longleftrightarrow> (\<exists>kw \<in> set kws. occurs_in kw t)"
  by (induction kws) (auto simp: str_in_iff)

lemma has_hit_code: "has_hit t e = any_kw_in (snd e) t"
  by (simp add: any_kw_in_iff has_hit_def)

lemma first_category_find:
  "first_category tbl t =
     (case find (has_hit t) tbl of None \<Rightarrow> ''general'' | Some e \<Rightarrow> fst e)"
  by (induction tbl t rule: first_category.induct) (simp_all add: has_hit_code)

lemma first_category_first_hit:
  "i < length tbl \<Longrightarrow> has_hit t (tbl ! i) \<Longrightarrow> \<forall>k<i. \<not> has_hit t (tbl ! k)
     \<Longrightarrow> first_category tbl t = fst (tbl ! i)"
proof (induction tbl t arbitrary: i rule: first_category.induct)
  case (1 t)
  then show ?case by simp
next
  case (2 c kws rest t)
  show ?case
  proof (cases i)
    case 0
    then show ?thesis using "2.prems" by (simp add: has_hit_code)
  next
    case (Suc m)
    then have nohit: "\<not> any_kw_in kws t" using "2.prems"(3) by (auto simp: has_hit_code)
    have "first_category rest t = fst (rest ! m)"
    proof (rule "2.IH")
      show "\<not> any_kw_in kws t" using nohit .
      show "m < length rest" using "2.prems"(1) Suc by simp
      show "has_hit t (rest ! m)" using "2.prems"(2) Suc by simp
      show "\<forall>k<m. \<not> has_hit t (rest ! k)" using "2.prems"(3) Suc by auto
    qed
    then show ?thesis using nohit Suc by simp
  qed
qed

lemma first_category_no_hit:
  "\<forall>e \<in> set tbl. \<not> has_hit t e \<Longrightarrow> first_category tbl t = ''general''"
  by (induction tbl t rule: first_category.induct) (simp_all add: has_hit_code)

text \<open>
  C3. For every title and description, category inference lower-cases the title, a space
  and the description, and returns the first category of the keyword table one of whose
  keywords occurs in that text; it returns the default \<open>general\<close> when no keyword of
  any category occurs; and when keywords of two categories occur, the category listed
  earlier wins. The function is total and deterministic, being a function of HOL.
\<close>

theorem infer_category_first_match:
  "infer_category ttl descr =
      (case find (has_hit (lower (ttl @ '' '' @ descr))) CATEGORY_KEYWORDS of
         None \<Rightarrow> ''general''
       | Some entry \<Rightarrow> fst entry)
   \<and> ((\<forall>entry \<in> set CATEGORY_KEYWORDS. \<not> has_hit (lower (ttl @ '' '' @ descr)) entry)
        \<longrightarrow> infer_category ttl descr = ''general'')
   \<and> (\<forall>i j. i < j \<and> j < length CATEGORY_KEYWORDS
          \<and> has_hit (lower (ttl @ '' '' @ descr)) (CATEGORY_KEYWORDS ! i)
          \<and> has_hit (lower (ttl @ '' '' @ descr)) (CATEGORY_KEYWORDS ! j)
          \<and> (\<forall>k<i. \<not> has_hit (lower (ttl @ '' '' @ descr)) (CATEGORY_KEYWORDS ! k))
        \<longrightarrow> infer_category ttl descr = fst (CATEGORY_KEYWORDS ! i))"
proof (intro conjI allI impI)
  show "infer_category ttl descr =
      (case find (has_hit (lower (ttl @ '' '' @ descr))) CATEGORY_KEYWORDS of
         None \<Rightarrow> ''general''
       | Some entry \<Rightarrow> fst entry)"
    unfolding infer_category_def by (rule first_category_find)
next
  assume "\<forall>entry \<in> set CATEGORY_KEYWORDS. \<not> has_hit (lower (ttl @ '' '' @ descr)) entry"
  then show "infer_category ttl descr = ''general''"
    unfolding infer_category_def by (rule first_category_no_hit)
next
  fix i j
  assume a: "i < j \<and> j < length CATEGORY_KEYWORDS
          \<and> has_hit (lower (ttl @ '' '' @ descr)) (CATEGORY_KEYWORDS ! i)
          \<and> has_hit (lower (ttl @ '' '' @ descr)) (CATEGORY_KEYWORDS ! j)
          \<and> (\<forall>k<i. \<not> has_hit (lower (ttl @ '' '' @ descr)) (CATEGORY_KEYWORDS ! k))"
  then have "i < length CATEGORY_KEYWORDS" by linarith
  then show "infer_category ttl descr = fst (CATEGORY_KEYWORDS ! i)"
    unfolding infer_category_def using a by (intro first_category_first_hit) simp_all
qed

theorem infer_category_first_match_witness:
  "infer_category ''Ice Fishing'' '''' = ''winter_survival''
   \<and> fst (CATEGORY_KEYWORDS ! 0) = ''winter_survival''
   \<and> fst (CATEGORY_KEYWORDS ! 2) = ''fishing''
   \<and> has_hit (lower (''Ice Fishing'' @ '' '' @ '''')) (CATEGORY_KEYWORDS ! 0)
   \<and> has_hit (lower (''Ice Fishing'' @ '' '' @ '''')) (CATEGORY_KEYWORDS ! 2)
   \<and> infer_category ''Trip'' ''to town'' = ''general''"
proof -
  have h0: "has_hit (lower (''Ice Fishing'' @ '' '' @ '''')) (CATEGORY_KEYWORDS ! 0)"
    by (simp add: has_hit_code CATEGORY_KEYWORDS_def lower_def lower_char_def)
  have h2: "has_hit (lower (''Ice Fishing'' @ '' '' @ '''')) (CATEGORY_KEYWORDS ! 2)"
    by (simp add: has_hit_code CATEGORY_KEYWORDS_def lower_def lower_char_def)
  have len: "(0::nat) < 2 \<and> 2 < length CATEGORY_KEYWORDS"
    by (simp add: CATEGORY_KEYWORDS_def)
  have none: "\<forall>entry \<in> set CATEGORY_KEYWORDS. \<not> has_hit (lower (''Trip'' @ '' '' @ ''to town'')) entry"
    by (simp add: has_hit_code CATEGORY_KEYWORDS_def lower_def lower_char_def)
  have a: "infer_category ''Ice Fishing'' '''' = fst (CATEGORY_KEYWORDS ! 0)"
    using infer_category_first_match [of "''Ice Fishing''" "''''"] h0 h2 len by blast
  have b: "infer_category ''Trip'' ''to town'' = ''general''"
    using infer_category_first_match [of "''Trip''" "''to town''"] none by blast
  have f0: "fst (CATEGORY_KEYWORDS ! 0) = ''winter_survival''"
    by (simp add: CATEGORY_KEYWORDS_def)
  have f2: "fst (CATEGORY_KEYWORDS ! 2) = ''fishing''"
    by (simp add: CATEGORY_KEYWORDS_def)
  show ?thesis using a b f0 f2 h0 h2 by simp
qed


section \<open>Basic facts about the run\<close>

lemmas demo_defs = demo_md5_def demo_lib_def demo_video_def demo_scraper_def client_of_def
  demo_extraction_def empty_state_def

lemmas run_defs = process_video_def get_transcript_def extract_facts_with_llm_def
  extract_businesses_from_description_def items_of_def and_then_def dict_get_def
  str_encode_def
  infer_category_def CATEGORY_KEYWORDS_def lower_def lower_char_def gear_content_def
  empty_extraction_def

lemmas fetch_defs = build_knowledge_base_def get_channel_playlists_def
  get_all_channel_videos_def get_playlist_videos_def playlist_of_item_def video_of_item_def
  slice_to_def category_of_playlist_def

lemma and_then_Inl [simp]: "and_then (Inl e) f = Inl e"
  by (simp add: and_then_def)

lemma and_then_Inr [simp]: "and_then (Inr x) f = f x"
  by (simp add: and_then_def)

lemma and_then_Inr_iff: "and_then m f = Inr y \<longleftrightarrow> (\<exists>x. m = Inr x \<and> f x = Inr y)"
  by (cases m) simp_all

lemma str_encode_Inr: "str_encode s = Inr b \<longleftrightarrow> \<not> has_surrogate s \<and> b = s"
  by (auto simp: str_encode_def)

lemma generate_id_Inr:
  "generate_id lib x = Inr i \<Longrightarrow>
     \<exists>s. x = JStr s \<and> \<not> has_surrogate s \<and> i = take 12 (md5_hexdigest lib s)"
  by (cases x) (auto simp: and_then_Inr_iff str_encode_Inr)

lemma generate_id_JStr:
  "\<not> has_surrogate s \<Longrightarrow> generate_id lib (JStr s) = Inr (take 12 (md5_hexdigest lib s))"
  by (simp add: str_encode_def)

lemma generate_id_surrogate:
  "generate_id lib (JStr [CHR 0xED, CHR 0xA0, CHR 0x80]) = Inl UnicodeEncodeError"
  by (simp add: str_encode_def)

lemma facts_loop_appends:
  "facts_loop lib v ty cat tgs xs acc = Inr r \<Longrightarrow>
     \<exists>new. r = acc @ new \<and>
       list_all2 (\<lambda>tip f. generate_id lib tip = Inr (fact_id f) \<and> fact_type f = ty \<and>
                    content f = tip \<and> category f = cat \<and> videoId f = video_id v \<and>
                    videoTitle f = title v \<and> tags f = tgs) xs new"
proof (induction xs arbitrary: acc)
  case Nil
  then show ?case by simp
next
  case (Cons x xs)
  from Cons.prems obtain i where i: "generate_id lib x = Inr i"
    and rest: "facts_loop lib v ty cat tgs xs
         (acc @ [\<lparr>fact_id = i, fact_type = ty, content = x, category = cat,
                    videoId = video_id v, videoTitle = title v, tags = tgs\<rparr>]) = Inr r"
    by (auto simp: and_then_Inr_iff)
  from Cons.IH [OF rest] obtain new where
    r: "r = (acc @ [\<lparr>fact_id = i, fact_type = ty, content = x, category = cat,
                    videoId = video_id v, videoTitle = title v, tags = tgs\<rparr>]) @ new"
    and all: "list_all2 (\<lambda>tip f. generate_id lib tip = Inr (fact_id f) \<and> fact_type f = ty \<and>
                    content f = tip \<and> category f = cat \<and> videoId f = video_id v \<and>
                    videoTitle f = title v \<and> tags f = tgs) xs new"
    by blast
  let ?f = "\<lparr>fact_id = i, fact_type = ty, content = x, category = cat,
                    videoId = video_id v, videoTitle = title v, tags = tgs\<rparr>"
  have "r = acc @ (?f # new)" using r by simp
  moreover have "list_all2 (\<lambda>tip f. generate_id lib tip = Inr (fact_id f) \<and> fact_type f = ty \<and>
                    content f = tip \<and> category f = cat \<and> videoId f = video_id v \<and>
                    videoTitle f = title v \<and> tags f = tgs) (x # xs) (?f # new)"
    using i all by simp
  ultimately show ?case by blast
qed

lemma gear_loop_Inr:
  "gear_loop lib v gears acc = Inr r \<Longrightarrow>
     r = acc @ map (\<lambda>gear. \<lparr>fact_id = take 12 (md5_hexdigest lib (gear_content lib gear)),
                     fact_type = ''gear'', content = JStr (gear_content lib gear),
                     category = ''gear'', videoId = video_id v, videoTitle = title v,
                     tags = [''gear'', ''equipment'']\<rparr>) gears"
proof (induction gears arbitrary: acc)
  case Nil
  then show ?case by simp
next
  case (Cons g gears)
  from Cons.prems obtain i where i: "generate_id lib (JStr (gear_content lib g)) = Inr i"
    and rest: "gear_loop lib v gears
         (acc @ [\<lparr>fact_id = i, fact_type = ''gear'', content = JStr (gear_content lib g),
                    category = ''gear'', videoId = video_id v, videoTitle = title v,
                    tags = [''gear'', ''equipment'']\<rparr>]) = Inr r"
    by (auto simp: and_then_Inr_iff simp del: generate_id.simps)
  from generate_id_Inr [OF i] have "i = take 12 (md5_hexdigest lib (gear_content lib g))"
    by simp
  then show ?case using Cons.IH [OF rest] by simp
qed

lemma gear_loop_encodable:
  "\<forall>g \<in> set gears. \<not> has_surrogate (gear_content lib g) \<Longrightarrow>
   gear_loop lib v gears acc =
     Inr (acc @ map (\<lambda>gear. \<lparr>fact_id = take 12 (md5_hexdigest lib (gear_content lib gear)),
                     fact_type = ''gear'', content = JStr (gear_content lib gear),
                     category = ''gear'', videoId = video_id v, videoTitle = title v,
                     tags = [''gear'', ''equipment'']\<rparr>) gears)"
  by (induction gears arbitrary: acc) (simp_all add: str_encode_def)

lemma jokes_loop_appends:
  "jokes_loop lib v js acc = Inr r \<Longrightarrow> \<exists>new. r = acc @ new"
proof (induction js arbitrary: acc)
  case Nil
  then show ?case by simp
next
  case (Cons j js)
  then show ?case by (fastforce simp: and_then_Inr_iff)
qed

lemma recipes_loop_appends:
  "recipes_loop lib v rs acc = Inr r \<Longrightarrow> \<exists>new. r = acc @ new"
proof (induction rs arbitrary: acc)
  case Nil
  then show ?case by simp
next
  case (Cons x rs)
  then show ?case by (cases x) (fastforce simp: and_then_Inr_iff)+
qed



lemma process_video_skip:
  "get_transcript lib (video_id v) = None \<Longrightarrow> process_video lib sc st v = Inr st"
  by (simp add: process_video_def)

lemma process_video_parts:
  assumes "get_transcript lib (video_id v) = Some td"
    and "process_video lib sc st v = Inr st'"
  shows "\<exists>tips f1 techs f2 lessons f3 ftips f4 gears f5 js jokes rs recipes bizs b1 ds b2.
      items_of (extract_facts_with_llm sc v (full_text td)) ''survival_tips'' = Inr tips
    \<and> facts_loop lib v ''survival_tip'' (infer_category (title v) (description v))
         [''survival'', infer_category (title v) (description v)] tips (all_facts st) = Inr f1
    \<and> items_of (extract_facts_with_llm sc v (full_text td)) ''building_techniques'' = Inr techs
    \<and> facts_loop lib v ''building_technique'' ''building'' [''building'', ''construction''] techs f1 = Inr f2
    \<and> items_of (extract_facts_with_llm sc v (full_text td)) ''life_lessons'' = Inr lessons
    \<and> facts_loop lib v ''life_lesson'' ''life_lessons'' [''wisdom'', ''philosophy''] lessons f2 = Inr f3
    \<and> items_of (extract_facts_with_llm sc v (full_text td)) ''fishing_tips'' = Inr ftips
    \<and> facts_loop lib v ''fishing_tip'' ''fishing'' [''fishing''] ftips f3 = Inr f4
    \<and> items_of (extract_facts_with_llm sc v (full_text td)) ''gear_recommendations'' = Inr gears
    \<and> gear_loop lib v gears f4 = Inr f5
    \<and> items_of (extract_facts_with_llm sc v (full_text td)) ''dad_jokes'' = Inr js
    \<and> jokes_loop lib v js (all_jokes st) = Inr jokes
    \<and> items_of (extract_facts_with_llm sc v (full_text td)) ''recipes'' = Inr rs
    \<and> recipes_loop lib v rs (all_recipes st) = Inr recipes
    \<and> items_of (extract_facts_with_llm sc v (full_text td)) ''businesses_mentioned'' = Inr bizs
    \<and> businesses_loop lib v ''Mentioned in '' bizs (all_businesses st) = Inr b1
    \<and> py_iter (extract_businesses_from_description sc (description v)) = Inr ds
    \<and> businesses_loop lib v ''From video description: '' ds b1 = Inr b2
    \<and> st' = st\<lparr>all_facts := f5, all_businesses := b2, all_jokes := jokes, all_recipes := recipes\<rparr>"
  using assms unfolding process_video_def Let_def
  by (simp add: and_then_Inr_iff) blast

lemma items_of_empty_extraction:
  "items_of empty_extraction ''survival_tips'' = Inr []"
  "items_of empty_extraction ''building_techniques'' = Inr []"
  "items_of empty_extraction ''life_lessons'' = Inr []"
  "items_of empty_extraction ''fishing_tips'' = Inr []"
  "items_of empty_extraction ''gear_recommendations'' = Inr []"
  "items_of empty_extraction ''dad_jokes'' = Inr []"
  "items_of empty_extraction ''recipes'' = Inr []"
  "items_of empty_extraction ''businesses_mentioned'' = Inr []"
  by (simp_all add: items_of_def empty_extraction_def dict_get_def)

lemma process_video_empty_extraction:
  assumes "get_transcript lib (video_id v) = Some td"
    and "extract_facts_with_llm sc v (full_text td) = empty_extraction"
  shows "process_video lib sc st v =
     and_then (py_iter (extract_businesses_from_description sc (description v))) (\<lambda>ds.
       and_then (businesses_loop lib v ''From video description: '' ds (all_businesses st)) (\<lambda>b.
         Inr (st\<lparr>all_businesses := b\<rparr>)))"
  using assms by (simp add: process_video_def items_of_empty_extraction)

lemma build_knowledge_base_Inr:
  assumes "build_knowledge_base lib sc max_videos = Inr out"
  obtains playlists uploads st where
    "get_channel_playlists sc = Inr playlists"
    and "get_all_channel_videos sc = Inr uploads"
    and "process_videos lib sc
            \<lparr>all_facts = [], all_businesses = [], all_jokes = [], all_recipes = [],
             categories = categories_loop playlists []\<rparr> (slice_to max_videos uploads) = Inr st"
    and "out = \<lparr>metadata_json =
                  \<lparr>lastUpdated = now_isoformat lib,
                   totalVideos = int (length (slice_to max_videos uploads)),
                   totalFacts = int (length (all_facts st)),
                   version = ''1.0.0'',
                   channelName = ''Outdoor Boys''\<rparr>,
                categories_json = map snd (categories st),
                facts_json = all_facts st,
                businesses_json = all_businesses st,
                jokes_json = all_jokes st,
                recipes_json = all_recipes st\<rparr>"
proof -
  from assms obtain playlists where 1: "get_channel_playlists sc = Inr playlists"
    and r1: "and_then (get_all_channel_videos sc) (\<lambda>uploads.
       (let videos = slice_to max_videos uploads in
        and_then (process_videos lib sc
                    \<lparr>all_facts = [], all_businesses = [], all_jokes = [], all_recipes = [],
                     categories = categories_loop playlists []\<rparr> videos) (\<lambda>st.
          Inr \<lparr>metadata_json =
                  \<lparr>lastUpdated = now_isoformat lib,
                   totalVideos = int (length videos),
                   totalFacts = int (length (all_facts st)),
                   version = ''1.0.0'',
                   channelName = ''Outdoor Boys''\<rparr>,
                categories_json = map snd (categories st),
                facts_json = all_facts st,
                businesses_json = all_businesses st,
                jokes_json = all_jokes st,
                recipes_json = all_recipes st\<rparr>))) = Inr out"
    unfolding build_knowledge_base_def by (cases "get_channel_playlists sc") simp_all
  from r1 obtain uploads where 2: "get_all_channel_videos sc = Inr uploads"
    and r2: "and_then (process_videos lib sc
                    \<lparr>all_facts = [], all_businesses = [], all_jokes = [], all_recipes = [],
                     categories = categories_loop playlists []\<rparr> (slice_to max_videos uploads)) (\<lambda>st.
          Inr \<lparr>metadata_json =
                  \<lparr>lastUpdated = now_isoformat lib,
                   totalVideos = int (length (slice_to max_videos uploads)),
                   totalFacts = int (length (all_facts st)),
                   version = ''1.0.0'',
                   channelName = ''Outdoor Boys''\<rparr>,
                categories_json = map snd (categories st),
                facts_json = all_facts st,
                businesses_json = all_businesses st,
                jokes_json = all_jokes st,
                recipes_json = all_recipes st\<rparr>) = Inr out"
    by (cases "get_all_channel_videos sc") (simp_all add: Let_def)
  from r2 obtain st where 3: "process_videos lib sc
            \<lparr>all_facts = [], all_businesses = [], all_jokes = [], all_recipes = [],
             categories = categories_loop playlists []\<rparr> (slice_to max_videos uploads) = Inr st"
    and 4: "out = \<lparr>metadata_json =
                  \<lparr>lastUpdated = now_isoformat lib,
                   totalVideos = int (length (slice_to max_videos uploads)),
                   totalFacts = int (length (all_facts st)),
                   version = ''1.0.0'',
                   channelName = ''Outdoor Boys''\<rparr>,
                categories_json = map snd (categories st),
                facts_json = all_facts st,
                businesses_json = all_businesses st,
                jokes_json = all_jokes st,
                recipes_json = all_recipes st\<rparr>"
    by (cases "process_videos lib sc
            \<lparr>all_facts = [], all_businesses = [], all_jokes = [], all_recipes = [],
             categories = categories_loop playlists []\<rparr> (slice_to max_videos uploads)") simp_all
  from 1 2 3 4 show thesis by (rule that)
qed

lemma businesses_loop_one:
  "businesses_loop lib v pre [biz] acc =
     (case biz of
        JObj kv \<Rightarrow>
          if truthy (dict_get kv ''name'' JNull) then
            and_then (generate_id lib (dict_get kv ''name'' (JStr []))) (\<lambda>i.
              Inr (acc @ [\<lparr>biz_id = i,
                            biz_name = dict_get kv ''name'' (JStr []),
                            biz_type = dict_get kv ''type'' (JStr ''other''),
                            location = dict_get kv ''location'' (JStr []),
                            contact = dict_get kv ''contact'' (JStr []),
                            website = dict_get kv ''website'' (JStr []),
                            videoReferences = [(video_id v, title v)],
                            biz_description = pre @ title v\<rparr>]))
          else Inr acc
      | _ \<Rightarrow> Inr acc)"
  by (cases biz) simp_all

lemma make_anthropic_None:
  "make_anthropic anthropic_api_key client = None \<longleftrightarrow>
     anthropic_api_key = None \<or> anthropic_api_key = Some []"
  by (simp add: make_anthropic_def split: option.splits)

section \<open>A video without a transcript\<close>



section \<open>A failed or malformed extraction reply\<close>




section \<open>Gear and recipe items that are not dicts\<close>

text \<open>
  C2, as the code has it. The gear loop rejects no item: whenever it completes, it has
  appended exactly one fact per gear item, in order, whose content is the text
  \<open>name: use - recommendation\<close> formatted from the fields of a dict (with the defaults
  \<open>Unknown\<close>, empty and empty) and \<^verbatim>\<open>str\<close> of anything that is not a dict (a
  string item is its own content); and it completes whenever every such content can be
  encoded for hashing. The recipes loop does not coerce: an item that is not a dict is
  passed over and no record is made.
\<close>

theorem gear_coerced_recipe_dropped:
  "(gear_loop lib v gears facts = Inr result \<longrightarrow>
      result = facts @ map (\<lambda>gear.
                 \<lparr>fact_id = take 12 (md5_hexdigest lib (gear_content lib gear)),
                  fact_type = ''gear'', content = JStr (gear_content lib gear),
                  category = ''gear'', videoId = video_id v, videoTitle = title v,
                  tags = [''gear'', ''equipment'']\<rparr>) gears)
   \<and> ((\<forall>g \<in> set gears. \<not> has_surrogate (gear_content lib g)) \<longrightarrow>
        gear_loop lib v gears facts =
          Inr (facts @ map (\<lambda>gear.
                 \<lparr>fact_id = take 12 (md5_hexdigest lib (gear_content lib gear)),
                  fact_type = ''gear'', content = JStr (gear_content lib gear),
                  category = ''gear'', videoId = video_id v, videoTitle = title v,
                  tags = [''gear'', ''equipment'']\<rparr>) gears))
   \<and> gear_content lib (JObj kv) =
        py_str (repr_quote lib) (dict_get kv ''name'' (JStr ''Unknown'')) @ '': '' @
        py_str (repr_quote lib) (dict_get kv ''use'' (JStr [])) @ '' - '' @
        py_str (repr_quote lib) (dict_get kv ''recommendation'' (JStr []))
   \<and> (\<not> isinstance_dict gear \<longrightarrow> gear_content lib gear = py_str (repr_quote lib) gear)
   \<and> gear_content lib (JStr s) = s
   \<and> (\<not> isinstance_dict r \<longrightarrow>
        recipes_loop lib v (r # rs) recipes = recipes_loop lib v rs recipes)"
proof (intro conjI impI)
  assume "gear_loop lib v gears facts = Inr result"
  then show "result = facts @ map (\<lambda>gear.
                 \<lparr>fact_id = take 12 (md5_hexdigest lib (gear_content lib gear)),
                  fact_type = ''gear'', content = JStr (gear_content lib gear),
                  category = ''gear'', videoId = video_id v, videoTitle = title v,
                  tags = [''gear'', ''equipment'']\<rparr>) gears"
    by (rule gear_loop_Inr)
next
  assume "\<forall>g \<in> set gears. \<not> has_surrogate (gear_content lib g)"
  then show "gear_loop lib v gears facts =
          Inr (facts @ map (\<lambda>gear.
                 \<lparr>fact_id = take 12 (md5_hexdigest lib (gear_content lib gear)),
                  fact_type = ''gear'', content = JStr (gear_content lib gear),
                  category = ''gear'', videoId = video_id v, videoTitle = title v,
                  tags = [''gear'', ''equipment'']\<rparr>) gears)"
    by (rule gear_loop_encodable)
next
  show "gear_content lib (JObj kv) =
        py_str (repr_quote lib) (dict_get kv ''name'' (JStr ''Unknown'')) @ '': '' @
        py_str (repr_quote lib) (dict_get kv ''use'' (JStr [])) @ '' - '' @
        py_str (repr_quote lib) (dict_get kv ''recommendation'' (JStr []))"
    by (simp add: gear_content_def)
next
  assume "\<not> isinstance_dict gear"
  then show "gear_content lib gear = py_str (repr_quote lib) gear"
    by (cases gear) (simp_all add: gear_content_def)
next
  show "gear_content lib (JStr s) = s"
    by (simp add: gear_content_def)
next
  assume "\<not> isinstance_dict r"
  then show "recipes_loop lib v (r # rs) recipes = recipes_loop lib v rs recipes"
    by (cases r) simp_all
qed

theorem gear_coerced_recipe_dropped_witness:
  "gear_loop demo_lib (demo_video ''vid1'' ''Trip'' ''snow'')
     [JArr [JInt 3, JNull], JObj [(''name'', JStr ''axe''), (''use'', JInt 3)]] [] =
     Inr [\<lparr>fact_id = ''4203603ede7b'', fact_type = ''gear'',
           content = JStr ''[3, None]'', category = ''gear'', videoId = ''vid1'',
           videoTitle = ''Trip'', tags = [''gear'', ''equipment'']\<rparr>,
          \<lparr>fact_id = ''a230b96565ac'', fact_type = ''gear'',
           content = JStr ''axe: 3 - '', category = ''gear'', videoId = ''vid1'',
           videoTitle = ''Trip'', tags = [''gear'', ''equipment'']\<rparr>]
   \<and> gear_content demo_lib (JArr [JInt 3, JNull]) = ''[3, None]''
   \<and> gear_content demo_lib (JObj [(''name'', JStr ''axe''), (''use'', JInt 3)]) = ''axe: 3 - ''
   \<and> recipes_loop demo_lib (demo_video ''vid1'' ''Trip'' ''snow'') [JStr ''stew''] [] = Inr []"
proof -
  let ?v = "demo_video ''vid1'' ''Trip'' ''snow''"
  let ?g1 = "JArr [JInt 3, JNull]"
  let ?g2 = "JObj [(''name'', JStr ''axe''), (''use'', JInt 3)]"
  have s1: "py_str (repr_quote demo_lib) ?g1 = ''[3, None]''"
    by (simp add: str_int_def digit_char_def)
  have n1: "\<not> isinstance_dict ?g1" by simp
  have c1: "gear_content demo_lib ?g1 = ''[3, None]''"
    using gear_coerced_recipe_dropped [where lib = demo_lib and gear = ?g1] n1 s1 by simp
  have c2: "gear_content demo_lib ?g2 = ''axe: 3 - ''"
    using gear_coerced_recipe_dropped [where lib = demo_lib
        and kv = "[(''name'', JStr ''axe''), (''use'', JInt 3)]"]
    by (simp add: dict_get_def str_int_def digit_char_def)
  have enc: "\<forall>g \<in> set [?g1, ?g2]. \<not> has_surrogate (gear_content demo_lib g)"
    using c1 c2 by simp
  from gear_coerced_recipe_dropped [where lib = demo_lib and v = ?v and gears = "[?g1, ?g2]"
      and facts = "[]"] enc
  have run: "gear_loop demo_lib ?v [?g1, ?g2] [] =
          Inr ([] @ map (\<lambda>gear.
                 \<lparr>fact_id = take 12 (md5_hexdigest demo_lib (gear_content demo_lib gear)),
                  fact_type = ''gear'', content = JStr (gear_content demo_lib gear),
                  category = ''gear'', videoId = video_id ?v, videoTitle = title ?v,
                  tags = [''gear'', ''equipment'']\<rparr>) [?g1, ?g2])"
    by blast
  have rec: "recipes_loop demo_lib ?v [JStr ''stew''] [] = recipes_loop demo_lib ?v [] []"
    using gear_coerced_recipe_dropped [where lib = demo_lib and v = ?v and r = "JStr ''stew''"
        and rs = "[]" and recipes = "[]"] by simp
  show ?thesis
    using run c1 c2 rec by (simp add: demo_lib_def demo_md5_def demo_video_def)
qed

text \<open>
  C2 as stated fails for recipes: from a reply with the gear item \<^verbatim>\<open>"axe"\<close> and the
  recipe item \<^verbatim>\<open>"stew"\<close>, the video gets the gear fact and no recipe record.
\<close>

theorem recipe_coercion_counterexample:
  "process_video demo_lib (demo_scraper (Some (client_of
       (Parses (JObj [(''gear_recommendations'', JArr [JStr ''axe'']),
                      (''recipes'', JArr [JStr ''stew''])])) CallFails)))
     empty_state (demo_video ''vid1'' ''Trip'' ''snow'') =
   Inr \<lparr>all_facts =
          [\<lparr>fact_id = ''c89ee4a2c9dc'', fact_type = ''gear'', content = JStr ''axe'',
            category = ''gear'', videoId = ''vid1'', videoTitle = ''Trip'',
            tags = [''gear'', ''equipment'']\<rparr>],
        all_businesses = [], all_jokes = [], all_recipes = [], categories = []\<rparr>"
  by (simp add: demo_defs run_defs)

section \<open>The survival tip records of a video\<close>

lemma facts_loop_types:
  assumes "list_all2 (\<lambda>tip f. generate_id lib tip = Inr (fact_id f) \<and> fact_type f = ty \<and>
                    content f = tip \<and> category f = cat \<and> videoId f = vid \<and>
                    videoTitle f = vt \<and> tags f = tgs) xs new"
  shows "\<forall>f \<in> set new. fact_type f = ty"
  using assms by (induction xs new rule: list_all2_induct) simp_all

lemma filter_all: "\<forall>x \<in> set xs. P x \<Longrightarrow> filter P xs = xs"
  by (induction xs) simp_all

lemma filter_none: "\<forall>x \<in> set xs. \<not> P x \<Longrightarrow> filter P xs = []"
  by (induction xs) simp_all

text \<open>
  C7, as the code has it. For a processed video, the facts added for it contain exactly
  one record of type \<open>survival_tip\<close> per extracted survival tip, in the order of the
  tips: its content is the tip, its id the hash of the tip, its category the one inferred
  from the video's title and description together, and its tags are \<open>survival\<close>
  followed by that category.
\<close>

theorem survival_tip_records:
  assumes "get_transcript lib (video_id v) = Some td"
    and "process_video lib sc st v = Inr st'"
  shows "\<exists>tips new.
      items_of (extract_facts_with_llm sc v (full_text td)) ''survival_tips'' = Inr tips
    \<and> all_facts st' = all_facts st @ new
    \<and> list_all2 (\<lambda>tip f. content f = tip
           \<and> generate_id lib tip = Inr (fact_id f)
           \<and> category f = infer_category (title v) (description v)
           \<and> tags f = [''survival'', infer_category (title v) (description v)]
           \<and> videoId f = video_id v \<and> videoTitle f = title v)
         tips (filter (\<lambda>f. fact_type f = ''survival_tip'') new)"
proof -
  let ?cat = "infer_category (title v) (description v)"
  let ?ex = "extract_facts_with_llm sc v (full_text td)"
  from process_video_parts [OF assms]
  obtain tips f1 techs f2 lessons f3 ftips f4 gears f5 js jokes rs recipes bizs b1 ds b2 where
    tips: "items_of ?ex ''survival_tips'' = Inr tips"
    and l1: "facts_loop lib v ''survival_tip'' ?cat [''survival'', ?cat] tips (all_facts st) = Inr f1"
    and "items_of ?ex ''building_techniques'' = Inr techs"
    and l2: "facts_loop lib v ''building_technique'' ''building'' [''building'', ''construction''] techs f1 = Inr f2"
    and "items_of ?ex ''life_lessons'' = Inr lessons"
    and l3: "facts_loop lib v ''life_lesson'' ''life_lessons'' [''wisdom'', ''philosophy''] lessons f2 = Inr f3"
    and "items_of ?ex ''fishing_tips'' = Inr ftips"
    and l4: "facts_loop lib v ''fishing_tip'' ''fishing'' [''fishing''] ftips f3 = Inr f4"
    and "items_of ?ex ''gear_recommendations'' = Inr gears"
    and l5: "gear_loop lib v gears f4 = Inr f5"
    and "items_of ?ex ''dad_jokes'' = Inr js"
    and "jokes_loop lib v js (all_jokes st) = Inr jokes"
    and "items_of ?ex ''recipes'' = Inr rs"
    and "recipes_loop lib v rs (all_recipes st) = Inr recipes"
    and "items_of ?ex ''businesses_mentioned'' = Inr bizs"
    and "businesses_loop lib v ''Mentioned in '' bizs (all_businesses st) = Inr b1"
    and "py_iter (extract_businesses_from_description sc (description v)) = Inr ds"
    and "businesses_loop lib v ''From video description: '' ds b1 = Inr b2"
    and eq: "st' = st\<lparr>all_facts := f5, all_businesses := b2, all_jokes := jokes, all_recipes := recipes\<rparr>"
    by (elim exE conjE)
  have st': "all_facts st' = f5" using eq by simp
  from facts_loop_appends [OF l1] obtain n1 where
    f1: "f1 = all_facts st @ n1"
    and a1: "list_all2 (\<lambda>tip f. generate_id lib tip = Inr (fact_id f) \<and> fact_type f = ''survival_tip'' \<and>
                    content f = tip \<and> category f = ?cat \<and> videoId f = video_id v \<and>
                    videoTitle f = title v \<and> tags f = [''survival'', ?cat]) tips n1"
    by blast
  from facts_loop_appends [OF l2] obtain n2 where
    f2: "f2 = f1 @ n2"
    and r2: "list_all2 (\<lambda>tip f. generate_id lib tip = Inr (fact_id f) \<and> fact_type f = ''building_technique'' \<and>
                    content f = tip \<and> category f = ''building'' \<and> videoId f = video_id v \<and>
                    videoTitle f = title v \<and> tags f = [''building'', ''construction'']) techs n2"
    by blast
  have a2: "\<forall>f \<in> set n2. fact_type f = ''building_technique''"
    using r2 by (rule facts_loop_types)
  from facts_loop_appends [OF l3] obtain n3 where
    f3: "f3 = f2 @ n3"
    and r3: "list_all2 (\<lambda>tip f. generate_id lib tip = Inr (fact_id f) \<and> fact_type f = ''life_lesson'' \<and>
                    content f = tip \<and> category f = ''life_lessons'' \<and> videoId f = video_id v \<and>
                    videoTitle f = title v \<and> tags f = [''wisdom'', ''philosophy'']) lessons n3"
    by blast
  have a3: "\<forall>f \<in> set n3. fact_type f = ''life_lesson''"
    using r3 by (rule facts_loop_types)
  from facts_loop_appends [OF l4] obtain n4 where
    f4: "f4 = f3 @ n4"
    and r4: "list_all2 (\<lambda>tip f. generate_id lib tip = Inr (fact_id f) \<and> fact_type f = ''fishing_tip'' \<and>
                    content f = tip \<and> category f = ''fishing'' \<and> videoId f = video_id v \<and>
                    videoTitle f = title v \<and> tags f = [''fishing'']) ftips n4"
    by blast
  have a4: "\<forall>f \<in> set n4. fact_type f = ''fishing_tip''"
    using r4 by (rule facts_loop_types)
  define n5 where "n5 = map (\<lambda>gear. \<lparr>fact_id = take 12 (md5_hexdigest lib (gear_content lib gear)),
                     fact_type = ''gear'', content = JStr (gear_content lib gear),
                     category = ''gear'', videoId = video_id v, videoTitle = title v,
                     tags = [''gear'', ''equipment'']\<rparr>) gears"
  have f5: "f5 = f4 @ n5" using gear_loop_Inr [OF l5] unfolding n5_def by simp
  have a5: "\<forall>f \<in> set n5. fact_type f = ''gear''" unfolding n5_def by simp
  have t1: "\<forall>f \<in> set n1. fact_type f = ''survival_tip''"
    using a1 by (rule facts_loop_types)
  have k1: "filter (\<lambda>f. fact_type f = ''survival_tip'') n1 = n1"
    using t1 by (rule filter_all)
  have k2: "filter (\<lambda>f. fact_type f = ''survival_tip'') n2 = []"
    using a2 by (intro filter_none) simp
  have k3: "filter (\<lambda>f. fact_type f = ''survival_tip'') n3 = []"
    using a3 by (intro filter_none) simp
  have k4: "filter (\<lambda>f. fact_type f = ''survival_tip'') n4 = []"
    using a4 by (intro filter_none) simp
  have k5: "filter (\<lambda>f. fact_type f = ''survival_tip'') n5 = []"
    using a5 by (intro filter_none) simp
  have all: "all_facts st' = all_facts st @ (n1 @ n2 @ n3 @ n4 @ n5)"
    using st' f1 f2 f3 f4 f5 by simp
  have fl: "filter (\<lambda>f. fact_type f = ''survival_tip'') (n1 @ n2 @ n3 @ n4 @ n5) = n1"
    using k1 k2 k3 k4 k5 by simp
  have rel: "list_all2 (\<lambda>tip f. content f = tip
           \<and> generate_id lib tip = Inr (fact_id f)
           \<and> category f = ?cat
           \<and> tags f = [''survival'', ?cat]
           \<and> videoId f = video_id v \<and> videoTitle f = title v) tips n1"
    using a1 by (rule list_all2_mono) simp
  have "list_all2 (\<lambda>tip f. content f = tip
           \<and> generate_id lib tip = Inr (fact_id f)
           \<and> category f = ?cat
           \<and> tags f = [''survival'', ?cat]
           \<and> videoId f = video_id v \<and> videoTitle f = title v) tips
         (filter (\<lambda>f. fact_type f = ''survival_tip'') (n1 @ n2 @ n3 @ n4 @ n5))"
    using rel fl by simp
  then show ?thesis using tips all by blast
qed

theorem survival_tip_records_witness:
  "\<exists>tips new.
      items_of (JObj [(''survival_tips'', JArr [JStr ''drink the first melt, not the ice''])])
        ''survival_tips'' = Inr tips
    \<and> [\<lparr>fact_id = ''955c16aeb86a'', fact_type = ''survival_tip'',
          content = JStr ''drink the first melt, not the ice'',
          category = ''winter_survival'', videoId = ''vid1'', videoTitle = ''Trip'',
          tags = [''survival'', ''winter_survival'']\<rparr>] = [] @ new
    \<and> list_all2 (\<lambda>tip f. content f = tip
           \<and> generate_id demo_lib tip = Inr (fact_id f)
           \<and> category f = ''winter_survival''
           \<and> tags f = [''survival'', ''winter_survival'']
           \<and> videoId f = ''vid1'' \<and> videoTitle f = ''Trip'')
         tips (filter (\<lambda>f. fact_type f = ''survival_tip'') new)"
proof -
  let ?sc = "demo_scraper (Some (client_of
       (Parses (JObj [(''survival_tips'', JArr [JStr ''drink the first melt, not the ice''])]))
       CallFails))"
  let ?v = "demo_video ''vid1'' ''Trip'' ''snow''"
  let ?td = "\<lparr>tr_video_id = ''vid1'', segments = [''melt snow'', ''then drink''],
                     full_text = ''melt snow then drink''\<rparr>"
  have t: "get_transcript demo_lib (video_id ?v) = Some ?td"
    by (simp add: get_transcript_def demo_lib_def demo_video_def)
  have p: "process_video demo_lib ?sc empty_state ?v =
     Inr \<lparr>all_facts =
          [\<lparr>fact_id = ''955c16aeb86a'', fact_type = ''survival_tip'',
            content = JStr ''drink the first melt, not the ice'',
            category = ''winter_survival'', videoId = ''vid1'', videoTitle = ''Trip'',
            tags = [''survival'', ''winter_survival'']\<rparr>],
        all_businesses = [], all_jokes = [], all_recipes = [], categories = []\<rparr>"
    by (simp add: demo_defs run_defs Let_def)
  have c: "infer_category (title ?v) (description ?v) = ''winter_survival''"
    by (simp add: demo_video_def infer_category_def CATEGORY_KEYWORDS_def lower_def lower_char_def)
  have e: "extract_facts_with_llm ?sc ?v (full_text ?td) =
      JObj [(''survival_tips'', JArr [JStr ''drink the first melt, not the ice''])]"
    by (simp add: extract_facts_with_llm_def demo_scraper_def client_of_def)
  show ?thesis
    using survival_tip_records [OF t p] unfolding c e
    by (simp add: empty_state_def demo_video_def)
qed

text \<open>
  C7 as stated fails: the category is not the one inferred for the title alone. A video
  titled \<open>Trip\<close> whose description is \<open>snow\<close> gets its tip filed under
  \<open>winter_survival\<close>, while the title alone infers \<open>general\<close>.
\<close>

theorem survival_tip_category_counterexample:
  "process_video demo_lib
     (demo_scraper (Some (client_of
       (Parses (JObj [(''survival_tips'', JArr [JStr ''drink the first melt, not the ice''])]))
       CallFails)))
     empty_state (demo_video ''vid1'' ''Trip'' ''snow'') =
   Inr \<lparr>all_facts =
          [\<lparr>fact_id = ''955c16aeb86a'', fact_type = ''survival_tip'',
            content = JStr ''drink the first melt, not the ice'',
            category = ''winter_survival'', videoId = ''vid1'', videoTitle = ''Trip'',
            tags = [''survival'', ''winter_survival'']\<rparr>],
        all_businesses = [], all_jokes = [], all_recipes = [], categories = []\<rparr>
   \<and> infer_category (title (demo_video ''vid1'' ''Trip'' ''snow'')) [] = ''general''"
  by (simp add: demo_defs run_defs Let_def)

section \<open>A run without a language-model credential\<close>

lemma process_video_no_client:
  assumes "anthropic sc = None"
  shows "process_video lib sc st v = Inr st"
proof (cases "get_transcript lib (video_id v)")
  case None
  then show ?thesis by (rule process_video_skip)
next
  case (Some td)
  have ex: "extract_facts_with_llm sc v (full_text td) = empty_extraction"
    using assms by (simp add: extract_facts_with_llm_def)
  have "extract_businesses_from_description sc (description v) = JArr []"
    using assms by (simp add: extract_businesses_from_description_def)
  then show ?thesis
    unfolding process_video_empty_extraction [OF Some ex] by simp
qed

lemma process_videos_no_client:
  "anthropic sc = None \<Longrightarrow> process_videos lib sc st vs = Inr st"
  by (induction vs) (simp_all add: process_video_no_client)

lemma update_fresh: "k \<notin> fst ` set al \<Longrightarrow> AList.update k v al = al @ [(k, v)]"
  by (induction al) auto

lemma categories_loop_distinct:
  "distinct (map pl_id ps) \<Longrightarrow> set (map pl_id ps) \<inter> fst ` set cats = {} \<Longrightarrow>
     categories_loop ps cats = cats @ map (\<lambda>p. (pl_id p, category_of_playlist p)) ps"
proof (induction ps arbitrary: cats)
  case Nil
  then show ?case by simp
next
  case (Cons p ps)
  have fresh: "pl_id p \<notin> fst ` set cats" using Cons.prems(2) by auto
  have upd: "AList.update (pl_id p) (category_of_playlist p) cats
               = cats @ [(pl_id p, category_of_playlist p)]"
    using fresh by (rule update_fresh)
  have d: "distinct (map pl_id ps)" using Cons.prems(1) by simp
  have i: "set (map pl_id ps) \<inter> fst ` set (cats @ [(pl_id p, category_of_playlist p)]) = {}"
    using Cons.prems by auto
  show ?case using Cons.IH [OF d i] upd by simp
qed

lemma update_set: "x \<in> set (AList.update k v al) \<Longrightarrow> x \<in> set al \<or> x = (k, v)"
  by (induction al) (auto split: if_splits)

lemma categories_loop_entries:
  "e \<in> set (categories_loop ps cats) \<Longrightarrow>
     e \<in> set cats \<or> (\<exists>p \<in> set ps. e = (pl_id p, category_of_playlist p))"
proof (induction ps arbitrary: cats)
  case Nil
  then show ?case by simp
next
  case (Cons q qs)
  from Cons.prems have "e \<in> set (categories_loop qs (AList.update (pl_id q) (category_of_playlist q) cats))"
    by simp
  from Cons.IH [OF this] show ?case using update_set by fastforce
qed

lemma categories_loop_keys:
  "fst ` set (categories_loop ps cats) = set (map pl_id ps) \<union> fst ` set cats"
  by (induction ps arbitrary: cats) (auto simp: dom_update)

lemma categories_loop_distinct_keys:
  "distinct (map fst cats) \<Longrightarrow> distinct (map fst (categories_loop ps cats))"
  by (induction ps arbitrary: cats) (simp_all add: distinct_update)

lemma no_credential_build:
  assumes "anthropic sc = None"
    and "get_channel_playlists sc = Inr playlists"
    and "get_all_channel_videos sc = Inr uploads"
  shows "extract_facts_with_llm sc v t = empty_extraction
    \<and> extract_businesses_from_description sc d = JArr []
    \<and> (\<exists>out. build_knowledge_base lib sc max_videos = Inr out
         \<and> facts_json out = [] \<and> jokes_json out = [] \<and> recipes_json out = []
         \<and> businesses_json out = []
         \<and> totalVideos (metadata_json out) = int (length (slice_to max_videos uploads))
         \<and> cat_id ` set (categories_json out) = set (map pl_id playlists)
         \<and> distinct (map cat_id (categories_json out))
         \<and> (distinct (map pl_id playlists) \<longrightarrow>
              categories_json out = map category_of_playlist playlists))"
proof -
  let ?st0 = "\<lparr>all_facts = [], all_businesses = [], all_jokes = [], all_recipes = [],
                categories = categories_loop playlists []\<rparr>"
  let ?cs = "categories_loop playlists []"
  have run: "process_videos lib sc ?st0 (slice_to max_videos uploads) = Inr ?st0"
    using assms(1) by (rule process_videos_no_client)
  have b: "build_knowledge_base lib sc max_videos =
      Inr \<lparr>metadata_json =
              \<lparr>lastUpdated = now_isoformat lib,
               totalVideos = int (length (slice_to max_videos uploads)),
               totalFacts = 0, version = ''1.0.0'', channelName = ''Outdoor Boys''\<rparr>,
            categories_json = map snd ?cs, facts_json = [], businesses_json = [],
            jokes_json = [], recipes_json = []\<rparr>"
    unfolding build_knowledge_base_def assms(2,3) Let_def and_then_Inr run by simp
  have entries: "\<forall>e \<in> set ?cs. \<exists>p \<in> set playlists. e = (pl_id p, category_of_playlist p)"
    using categories_loop_entries [of _ playlists "[]"] by auto
  have ids: "map cat_id (map snd ?cs) = map fst ?cs"
  proof -
    have "\<forall>e \<in> set ?cs. cat_id (snd e) = fst e"
      using entries by (auto simp: category_of_playlist_def)
    then show ?thesis by (simp add: map_eq_conv)
  qed
  have keys: "cat_id ` set (map snd ?cs) = set (map pl_id playlists)"
  proof -
    have "cat_id ` set (map snd ?cs) = set (map cat_id (map snd ?cs))"
      by (simp only: set_map)
    also have "\<dots> = fst ` set ?cs" unfolding ids by (simp only: set_map)
    also have "\<dots> = set (map pl_id playlists)" by (simp add: categories_loop_keys)
    finally show ?thesis .
  qed
  have dist: "distinct (map cat_id (map snd ?cs))"
    unfolding ids by (rule categories_loop_distinct_keys) simp
  have exact: "distinct (map pl_id playlists) \<longrightarrow> map snd ?cs = map category_of_playlist playlists"
  proof
    assume "distinct (map pl_id playlists)"
    then have "?cs = [] @ map (\<lambda>p. (pl_id p, category_of_playlist p)) playlists"
      by (intro categories_loop_distinct) simp_all
    then show "map snd ?cs = map category_of_playlist playlists"
      by (simp add: comp_def)
  qed
  have e1: "extract_facts_with_llm sc v t = empty_extraction"
    using assms(1) by (simp add: extract_facts_with_llm_def)
  have e2: "extract_businesses_from_description sc d = JArr []"
    using assms(1) by (simp add: extract_businesses_from_description_def)
  show ?thesis
    unfolding b using e1 e2 keys dist exact by simp
qed

lemma playlists_loop_pages:
  "pages req = map Inr pss \<Longrightarrow>
     playlists_loop req acc = Inr (acc @ map playlist_of_item (concat pss))"
proof (induction req acc arbitrary: pss rule: playlists_loop.induct)
  case (1 e playlists)
  then show ?case by (cases pss) auto
next
  case (2 items nxt playlists)
  show ?case
  proof (cases nxt)
    case None
    with "2.prems" have "pss = [items]" by (cases pss) auto
    then show ?thesis using None by simp
  next
    case (Some r)
    with "2.prems" obtain rest where pss: "pss = items # rest" and r: "pages r = map Inr rest"
      by (cases pss) auto
    show ?thesis using "2.IH" [OF Some r] Some pss by simp
  qed
qed

lemma videos_loop_pages:
  "pages req = map Inr pss \<Longrightarrow>
     videos_loop pid req acc = Inr (acc @ map (video_of_item pid) (concat pss))"
proof (induction pid req acc arbitrary: pss rule: videos_loop.induct)
  case (1 pid e videos)
  then show ?case by (cases pss) auto
next
  case (2 pid items nxt videos)
  show ?case
  proof (cases nxt)
    case None
    with "2.prems" have "pss = [items]" by (cases pss) auto
    then show ?thesis using None by simp
  next
    case (Some r)
    with "2.prems" obtain rest where pss: "pss = items # rest" and r: "pages r = map Inr rest"
      by (cases pss) auto
    show ?thesis using "2.IH" [OF Some r] Some pss by simp
  qed
qed

text \<open>
  C6. Take a scraper without a language-model client whose listings do not raise. Both
  extraction operations return their empty defaults. The playlists are still fetched: all
  items of all pages, in order, each with its id, title, description (empty when absent),
  item count and the category inferred from its title; and so are the videos: all items of
  all pages of the uploads playlist of the channel. The run ends without raising with
  facts, jokes, recipes and businesses all empty, the selected uploads counted, and the
  categories output holding one entry per playlist id, which for playlists with distinct
  ids is exactly one entry per playlist, in order.
\<close>

theorem no_credential_run:
  assumes "anthropic sc = None"
    and "pages (youtube_playlists sc) = map Inr playlist_pages"
    and "youtube_channels sc = Inr (uploads_id # other_items)"
    and "pages (youtube_playlist_items sc uploads_id) = map Inr video_pages"
  shows "extract_facts_with_llm sc v t = empty_extraction
    \<and> extract_businesses_from_description sc d = JArr []
    \<and> get_channel_playlists sc =
        Inr (map (\<lambda>item. \<lparr>pl_id = item_id item, pl_title = item_title item,
                     pl_description = (case item_description item of None \<Rightarrow> [] | Some x \<Rightarrow> x),
                     pl_video_count = item_count item,
                     pl_category = infer_category (item_title item) []\<rparr>)
               (concat playlist_pages))
    \<and> get_all_channel_videos sc =
        Inr (map (\<lambda>item. \<lparr>video_id = item_video_id item, title = item_video_title item,
                     description =
                       (case item_video_description item of None \<Rightarrow> [] | Some x \<Rightarrow> x),
                     published_at = item_published_at item, playlist_id = uploads_id\<rparr>)
               (concat video_pages))
    \<and> (\<exists>out. build_knowledge_base lib sc max_videos = Inr out
         \<and> facts_json out = [] \<and> jokes_json out = [] \<and> recipes_json out = []
         \<and> businesses_json out = []
         \<and> totalVideos (metadata_json out)
             = int (length (slice_to max_videos (concat video_pages)))
         \<and> cat_id ` set (categories_json out) = item_id ` set (concat playlist_pages)
         \<and> distinct (map cat_id (categories_json out))
         \<and> (distinct (map item_id (concat playlist_pages)) \<longrightarrow>
              categories_json out =
                map (\<lambda>item. \<lparr>cat_id = item_id item, cat_name = item_title item,
                       cat_description =
                         (case item_description item of None \<Rightarrow> [] | Some x \<Rightarrow> x),
                       playlistId = item_id item,
                       cat_category = infer_category (item_title item) [],
                       factCount = 0\<rparr>)
                  (concat playlist_pages)))"
proof -
  let ?pls = "map playlist_of_item (concat playlist_pages)"
  let ?ups = "map (video_of_item uploads_id) (concat video_pages)"
  have pl: "get_channel_playlists sc = Inr ?pls"
    unfolding get_channel_playlists_def using playlists_loop_pages [OF assms(2), of "[]"]
    by simp
  have up: "get_all_channel_videos sc = Inr ?ups"
    unfolding get_all_channel_videos_def get_playlist_videos_def assms(3)
    using videos_loop_pages [OF assms(4), of uploads_id "[]"] by simp
  have pl': "?pls = map (\<lambda>item. \<lparr>pl_id = item_id item, pl_title = item_title item,
                     pl_description = (case item_description item of None \<Rightarrow> [] | Some x \<Rightarrow> x),
                     pl_video_count = item_count item,
                     pl_category = infer_category (item_title item) []\<rparr>)
               (concat playlist_pages)"
    by (simp add: playlist_of_item_def)
  have up': "?ups = map (\<lambda>item. \<lparr>video_id = item_video_id item, title = item_video_title item,
                     description =
                       (case item_video_description item of None \<Rightarrow> [] | Some x \<Rightarrow> x),
                     published_at = item_published_at item, playlist_id = uploads_id\<rparr>)
               (concat video_pages)"
    by (simp add: video_of_item_def)
  have ids: "map pl_id ?pls = map item_id (concat playlist_pages)"
    by (simp add: playlist_of_item_def comp_def)
  have cats: "map category_of_playlist ?pls =
                map (\<lambda>item. \<lparr>cat_id = item_id item, cat_name = item_title item,
                       cat_description =
                         (case item_description item of None \<Rightarrow> [] | Some x \<Rightarrow> x),
                       playlistId = item_id item,
                       cat_category = infer_category (item_title item) [],
                       factCount = 0\<rparr>)
                  (concat playlist_pages)"
    by (simp add: category_of_playlist_def playlist_of_item_def)
  from no_credential_build [OF assms(1) pl up, of v t d lib max_videos]
  obtain out where e1: "extract_facts_with_llm sc v t = empty_extraction"
    and e2: "extract_businesses_from_description sc d = JArr []"
    and b: "build_knowledge_base lib sc max_videos = Inr out"
    and e: "facts_json out = []" "jokes_json out = []" "recipes_json out = []"
      "businesses_json out = []"
    and tv: "totalVideos (metadata_json out) = int (length (slice_to max_videos ?ups))"
    and k: "cat_id ` set (categories_json out) = set (map pl_id ?pls)"
    and dk: "distinct (map cat_id (categories_json out))"
    and ex: "distinct (map pl_id ?pls) \<longrightarrow> categories_json out = map category_of_playlist ?pls"
    by blast
  have tv': "totalVideos (metadata_json out)
             = int (length (slice_to max_videos (concat video_pages)))"
    using tv by (simp add: slice_to_def)
  have k': "cat_id ` set (categories_json out) = item_id ` set (concat playlist_pages)"
    using k unfolding ids by simp
  have ex': "distinct (map item_id (concat playlist_pages)) \<longrightarrow>
              categories_json out =
                map (\<lambda>item. \<lparr>cat_id = item_id item, cat_name = item_title item,
                       cat_description =
                         (case item_description item of None \<Rightarrow> [] | Some x \<Rightarrow> x),
                       playlistId = item_id item,
                       cat_category = infer_category (item_title item) [],
                       factCount = 0\<rparr>)
                  (concat playlist_pages)"
    using ex unfolding ids cats by simp
  have out: "\<exists>out. build_knowledge_base lib sc max_videos = Inr out
         \<and> facts_json out = [] \<and> jokes_json out = [] \<and> recipes_json out = []
         \<and> businesses_json out = []
         \<and> totalVideos (metadata_json out)
             = int (length (slice_to max_videos (concat video_pages)))
         \<and> cat_id ` set (categories_json out) = item_id ` set (concat playlist_pages)
         \<and> distinct (map cat_id (categories_json out))
         \<and> (distinct (map item_id (concat playlist_pages)) \<longrightarrow>
              categories_json out =
                map (\<lambda>item. \<lparr>cat_id = item_id item, cat_name = item_title item,
                       cat_description =
                         (case item_description item of None \<Rightarrow> [] | Some x \<Rightarrow> x),
                       playlistId = item_id item,
                       cat_category = infer_category (item_title item) [],
                       factCount = 0\<rparr>)
                  (concat playlist_pages))"
    using b e tv' k' dk ex' by blast
  show ?thesis using e1 e2 pl up out unfolding pl' up' by blast
qed

theorem no_credential_run_witness:
  "get_channel_playlists (demo_scraper None) =
     Inr [\<lparr>pl_id = ''PL1'', pl_title = ''Winter Camping'', pl_description = [],
           pl_video_count = 4, pl_category = ''winter_survival''\<rparr>,
          \<lparr>pl_id = ''PL2'', pl_title = ''Catch and Cook'', pl_description = ''Fishing trips'',
           pl_video_count = 7, pl_category = ''fishing''\<rparr>]
   \<and> get_all_channel_videos (demo_scraper None) =
     Inr [demo_video ''vid1'' ''Trip'' ''snow'', demo_video ''vid2'' ''Cabin'' [],
          demo_video ''vid3'' ''Halibut'' ''Kenai Charters'']
   \<and> (\<exists>out. build_knowledge_base demo_lib (demo_scraper None) 3 = Inr out
      \<and> facts_json out = [] \<and> jokes_json out = [] \<and> recipes_json out = []
      \<and> businesses_json out = []
      \<and> totalVideos (metadata_json out) = 3
      \<and> categories_json out =
          [\<lparr>cat_id = ''PL1'', cat_name = ''Winter Camping'', cat_description = [],
            playlistId = ''PL1'', cat_category = ''winter_survival'', factCount = 0\<rparr>,
           \<lparr>cat_id = ''PL2'', cat_name = ''Catch and Cook'', cat_description = ''Fishing trips'',
            playlistId = ''PL2'', cat_category = ''fishing'', factCount = 0\<rparr>])"
proof -
  let ?i1 = "\<lparr>item_id = ''PL1'', item_title = ''Winter Camping'', item_description = None,
               item_count = 4\<rparr>"
  let ?i2 = "\<lparr>item_id = ''PL2'', item_title = ''Catch and Cook'',
               item_description = Some ''Fishing trips'', item_count = 7\<rparr>"
  let ?vs = "[\<lparr>item_video_id = ''vid1'', item_video_title = ''Trip'',
                       item_video_description = Some ''snow'',
                       item_published_at = ''2023-12-01T00:00:00Z''\<rparr>,
                      \<lparr>item_video_id = ''vid2'', item_video_title = ''Cabin'',
                       item_video_description = None,
                       item_published_at = ''2023-12-01T00:00:00Z''\<rparr>,
                      \<lparr>item_video_id = ''vid3'', item_video_title = ''Halibut'',
                       item_video_description = Some ''Kenai Charters'',
                       item_published_at = ''2023-12-01T00:00:00Z''\<rparr>]"
  have a: "anthropic (demo_scraper None) = None"
    by (simp add: demo_scraper_def)
  have p: "pages (youtube_playlists (demo_scraper None)) = map Inr [[?i1], [?i2]]"
    by (simp add: demo_scraper_def)
  have c: "youtube_channels (demo_scraper None) = Inr (''UU1'' # [])"
    by (simp add: demo_scraper_def)
  have u: "pages (youtube_playlist_items (demo_scraper None) ''UU1'') = map Inr [?vs]"
    by (simp add: demo_scraper_def)
  have w1: "infer_category ''Winter Camping'' [] = ''winter_survival''"
    by (simp add: infer_category_def CATEGORY_KEYWORDS_def lower_def lower_char_def)
  have w2: "infer_category ''Catch and Cook'' [] = ''fishing''"
    by (simp add: infer_category_def CATEGORY_KEYWORDS_def lower_def lower_char_def)
  note th = no_credential_run [OF a p c u, where lib = demo_lib and max_videos = 3]
  from th have g1: "get_channel_playlists (demo_scraper None) =
     Inr [\<lparr>pl_id = ''PL1'', pl_title = ''Winter Camping'', pl_description = [],
           pl_video_count = 4, pl_category = ''winter_survival''\<rparr>,
          \<lparr>pl_id = ''PL2'', pl_title = ''Catch and Cook'', pl_description = ''Fishing trips'',
           pl_video_count = 7, pl_category = ''fishing''\<rparr>]"
    by (simp add: w1 w2)
  from th have g2: "get_all_channel_videos (demo_scraper None) =
     Inr [demo_video ''vid1'' ''Trip'' ''snow'', demo_video ''vid2'' ''Cabin'' [],
          demo_video ''vid3'' ''Halibut'' ''Kenai Charters'']"
    by (simp add: demo_video_def)
  from th obtain out where b: "build_knowledge_base demo_lib (demo_scraper None) 3 = Inr out"
    and e: "facts_json out = []" "jokes_json out = []" "recipes_json out = []"
      "businesses_json out = []"
    and t: "totalVideos (metadata_json out) = int (length (slice_to 3 (concat [?vs])))"
    and cs: "distinct (map item_id (concat [[?i1], [?i2]])) \<longrightarrow>
              categories_json out =
                map (\<lambda>item. \<lparr>cat_id = item_id item, cat_name = item_title item,
                       cat_description =
                         (case item_description item of None \<Rightarrow> [] | Some x \<Rightarrow> x),
                       playlistId = item_id item,
                       cat_category = infer_category (item_title item) [],
                       factCount = 0\<rparr>)
                  (concat [[?i1], [?i2]])"
    by blast
  have c': "categories_json out =
          [\<lparr>cat_id = ''PL1'', cat_name = ''Winter Camping'', cat_description = [],
            playlistId = ''PL1'', cat_category = ''winter_survival'', factCount = 0\<rparr>,
           \<lparr>cat_id = ''PL2'', cat_name = ''Catch and Cook'', cat_description = ''Fishing trips'',
            playlistId = ''PL2'', cat_category = ''fishing'', factCount = 0\<rparr>]"
    using cs by (simp add: w1 w2)
  have t': "totalVideos (metadata_json out) = 3" using t by (simp add: slice_to_def)
  have "\<exists>out. build_knowledge_base demo_lib (demo_scraper None) 3 = Inr out
      \<and> facts_json out = [] \<and> jokes_json out = [] \<and> recipes_json out = []
      \<and> businesses_json out = []
      \<and> totalVideos (metadata_json out) = 3
      \<and> categories_json out =
          [\<lparr>cat_id = ''PL1'', cat_name = ''Winter Camping'', cat_description = [],
            playlistId = ''PL1'', cat_category = ''winter_survival'', factCount = 0\<rparr>,
           \<lparr>cat_id = ''PL2'', cat_name = ''Catch and Cook'', cat_description = ''Fishing trips'',
            playlistId = ''PL2'', cat_category = ''fishing'', factCount = 0\<rparr>]"
    using b e t' c' by blast
  then show ?thesis using g1 g2 by blast
qed

section \<open>The metadata of a run\<close>

text \<open>
  C8. The metadata written at the end of a run reports as \<open>totalVideos\<close> the length
  of \<^verbatim>\<open>uploads[:max_videos]\<close>, whatever the transcripts of these videos do later,
  and as \<open>totalFacts\<close> the length of the accumulated facts. For a maximum that is not
  negative this is the smaller of the maximum and the number of uploads, so at most the
  maximum.
\<close>

theorem metadata_counts:
  assumes "build_knowledge_base lib sc max_videos = Inr out"
  shows "\<exists>uploads. get_all_channel_videos sc = Inr uploads
      \<and> totalVideos (metadata_json out) = int (length (slice_to max_videos uploads))
      \<and> totalFacts (metadata_json out) = int (length (facts_json out))
      \<and> (0 \<le> max_videos \<longrightarrow>
            totalVideos (metadata_json out) = min max_videos (int (length uploads))
            \<and> totalVideos (metadata_json out) \<le> max_videos)"
proof -
  from assms obtain playlists uploads st where
    "get_channel_playlists sc = Inr playlists"
    and u: "get_all_channel_videos sc = Inr uploads"
    and "process_videos lib sc
            \<lparr>all_facts = [], all_businesses = [], all_jokes = [], all_recipes = [],
             categories = categories_loop playlists []\<rparr> (slice_to max_videos uploads) = Inr st"
    and out: "out = \<lparr>metadata_json =
                  \<lparr>lastUpdated = now_isoformat lib,
                   totalVideos = int (length (slice_to max_videos uploads)),
                   totalFacts = int (length (all_facts st)),
                   version = ''1.0.0'',
                   channelName = ''Outdoor Boys''\<rparr>,
                categories_json = map snd (categories st),
                facts_json = all_facts st,
                businesses_json = all_businesses st,
                jokes_json = all_jokes st,
                recipes_json = all_recipes st\<rparr>"
    by (rule build_knowledge_base_Inr)
  have tv: "totalVideos (metadata_json out) = int (length (slice_to max_videos uploads))"
    using out by simp
  have tf: "totalFacts (metadata_json out) = int (length (facts_json out))"
    using out by simp
  have bound: "0 \<le> max_videos \<longrightarrow>
            totalVideos (metadata_json out) = min max_videos (int (length uploads))
            \<and> totalVideos (metadata_json out) \<le> max_videos"
    unfolding tv by (auto simp: slice_to_def)
  show ?thesis using u tv tf bound by blast
qed

theorem metadata_counts_witness:
  "\<exists>uploads. get_all_channel_videos
        (demo_scraper (Some (client_of (Parses demo_extraction) CallFails))) = Inr uploads
      \<and> length uploads = 3
      \<and> build_knowledge_base demo_lib
           (demo_scraper (Some (client_of (Parses demo_extraction) CallFails))) 2
         = Inr \<lparr>metadata_json =
                  \<lparr>lastUpdated = ''2024-01-01T00:00:00'', totalVideos = 2, totalFacts = 2,
                   version = ''1.0.0'', channelName = ''Outdoor Boys''\<rparr>,
                categories_json =
                  [\<lparr>cat_id = ''PL1'', cat_name = ''Winter Camping'', cat_description = [],
                    playlistId = ''PL1'', cat_category = ''winter_survival'', factCount = 0\<rparr>,
                   \<lparr>cat_id = ''PL2'', cat_name = ''Catch and Cook'',
                    cat_description = ''Fishing trips'', playlistId = ''PL2'',
                    cat_category = ''fishing'', factCount = 0\<rparr>],
                facts_json =
                  [\<lparr>fact_id = ''955c16aeb86a'', fact_type = ''survival_tip'',
                    content = JStr ''drink the first melt, not the ice'',
                    category = ''winter_survival'', videoId = ''vid1'', videoTitle = ''Trip'',
                    tags = [''survival'', ''winter_survival'']\<rparr>,
                   \<lparr>fact_id = ''c89ee4a2c9dc'', fact_type = ''gear'', content = JStr ''axe'',
                    category = ''gear'', videoId = ''vid1'', videoTitle = ''Trip'',
                    tags = [''gear'', ''equipment'']\<rparr>],
                businesses_json =
                  [\<lparr>biz_id = ''3d94914db8a0'', biz_name = JStr ''Kenai Charters'',
                    biz_type = JStr ''other'', location = JStr [], contact = JStr [],
                    website = JStr [], videoReferences = [(''vid1'', ''Trip'')],
                    biz_description = ''Mentioned in Trip''\<rparr>],
                jokes_json = [], recipes_json = []\<rparr>
      \<and> int (length (slice_to 2 uploads)) = 2"
proof -
  let ?sc = "demo_scraper (Some (client_of (Parses demo_extraction) CallFails))"
  let ?out = "\<lparr>metadata_json =
                  \<lparr>lastUpdated = ''2024-01-01T00:00:00'', totalVideos = 2, totalFacts = 2,
                   version = ''1.0.0'', channelName = ''Outdoor Boys''\<rparr>,
                categories_json =
                  [\<lparr>cat_id = ''PL1'', cat_name = ''Winter Camping'', cat_description = [],
                    playlistId = ''PL1'', cat_category = ''winter_survival'', factCount = 0\<rparr>,
                   \<lparr>cat_id = ''PL2'', cat_name = ''Catch and Cook'',
                    cat_description = ''Fishing trips'', playlistId = ''PL2'',
                    cat_category = ''fishing'', factCount = 0\<rparr>],
                facts_json =
                  [\<lparr>fact_id = ''955c16aeb86a'', fact_type = ''survival_tip'',
                    content = JStr ''drink the first melt, not the ice'',
                    category = ''winter_survival'', videoId = ''vid1'', videoTitle = ''Trip'',
                    tags = [''survival'', ''winter_survival'']\<rparr>,
                   \<lparr>fact_id = ''c89ee4a2c9dc'', fact_type = ''gear'', content = JStr ''axe'',
                    category = ''gear'', videoId = ''vid1'', videoTitle = ''Trip'',
                    tags = [''gear'', ''equipment'']\<rparr>],
                businesses_json =
                  [\<lparr>biz_id = ''3d94914db8a0'', biz_name = JStr ''Kenai Charters'',
                    biz_type = JStr ''other'', location = JStr [], contact = JStr [],
                    website = JStr [], videoReferences = [(''vid1'', ''Trip'')],
                    biz_description = ''Mentioned in Trip''\<rparr>],
                jokes_json = [], recipes_json = []\<rparr>"
  have b: "build_knowledge_base demo_lib ?sc 2 = Inr ?out"
    by (simp add: fetch_defs demo_defs run_defs Let_def)
  have u: "get_all_channel_videos ?sc =
      Inr [demo_video ''vid1'' ''Trip'' ''snow'', demo_video ''vid2'' ''Cabin'' [],
           demo_video ''vid3'' ''Halibut'' ''Kenai Charters'']"
    by (simp add: get_all_channel_videos_def get_playlist_videos_def video_of_item_def
        demo_scraper_def demo_video_def)
  from metadata_counts [OF b] u b show ?thesis by simp
qed

section \<open>The fact count of a category\<close>

lemma process_video_categories:
  "process_video lib sc st v = Inr st' \<Longrightarrow> categories st' = categories st"
proof (cases "get_transcript lib (video_id v)")
  case None
  assume "process_video lib sc st v = Inr st'"
  then show ?thesis using process_video_skip [OF None] by simp
next
  case (Some td)
  assume "process_video lib sc st v = Inr st'"
  from process_video_parts [OF Some this] obtain f5 b2 jokes recipes where
    "st' = st\<lparr>all_facts := f5, all_businesses := b2, all_jokes := jokes, all_recipes := recipes\<rparr>"
    by (elim exE conjE)
  then show ?thesis by simp
qed

lemma process_videos_categories:
  "process_videos lib sc st vs = Inr st' \<Longrightarrow> categories st' = categories st"
proof (induction vs arbitrary: st)
  case Nil
  then show ?case by simp
next
  case (Cons v vs)
  from Cons.prems obtain st1 where s1: "process_video lib sc st v = Inr st1"
    and s2: "process_videos lib sc st1 vs = Inr st'"
    by (auto simp: and_then_Inr_iff)
  show ?case using Cons.IH [OF s2] process_video_categories [OF s1] by simp
qed

text \<open>
  C9. A category entry is created with \<open>factCount = 0\<close>; processing a video, and the
  whole loop over the videos, leaves the categories as they were; so every entry written
  to the categories file has \<open>factCount = 0\<close>, however many facts were extracted.
\<close>

theorem fact_count_stays_zero:
  "factCount (category_of_playlist p) = 0
   \<and> (process_video lib sc st v = Inr st' \<longrightarrow> categories st' = categories st)
   \<and> (process_videos lib sc st vs = Inr st'' \<longrightarrow> categories st'' = categories st)
   \<and> (build_knowledge_base lib sc max_videos = Inr out \<longrightarrow>
        (\<forall>c \<in> set (categories_json out). factCount c = 0))"
proof (intro conjI impI)
  show "factCount (category_of_playlist p) = 0"
    by (simp add: category_of_playlist_def)
next
  assume "process_video lib sc st v = Inr st'"
  then show "categories st' = categories st" by (rule process_video_categories)
next
  assume "process_videos lib sc st vs = Inr st''"
  then show "categories st'' = categories st" by (rule process_videos_categories)
next
  assume "build_knowledge_base lib sc max_videos = Inr out"
  then obtain playlists uploads stf where
    "get_channel_playlists sc = Inr playlists"
    and "get_all_channel_videos sc = Inr uploads"
    and run: "process_videos lib sc
            \<lparr>all_facts = [], all_businesses = [], all_jokes = [], all_recipes = [],
             categories = categories_loop playlists []\<rparr> (slice_to max_videos uploads) = Inr stf"
    and o: "out = \<lparr>metadata_json =
                  \<lparr>lastUpdated = now_isoformat lib,
                   totalVideos = int (length (slice_to max_videos uploads)),
                   totalFacts = int (length (all_facts stf)),
                   version = ''1.0.0'',
                   channelName = ''Outdoor Boys''\<rparr>,
                categories_json = map snd (categories stf),
                facts_json = all_facts stf,
                businesses_json = all_businesses stf,
                jokes_json = all_jokes stf,
                recipes_json = all_recipes stf\<rparr>"
    by (rule build_knowledge_base_Inr)
  have out: "categories_json out = map snd (categories stf)" using o by simp
  have cs: "categories stf = categories_loop playlists []"
    using process_videos_categories [OF run] by simp
  show "\<forall>c \<in> set (categories_json out). factCount c = 0"
  proof
    fix c
    assume "c \<in> set (categories_json out)"
    then obtain e where e: "e \<in> set (categories_loop playlists [])" and c: "c = snd e"
      unfolding out cs by auto
    from categories_loop_entries [OF e] obtain q where "e = (pl_id q, category_of_playlist q)"
      by auto
    then show "factCount c = 0" using c by (simp add: category_of_playlist_def)
  qed
qed

theorem fact_count_stays_zero_witness:
  "\<exists>out. build_knowledge_base demo_lib
        (demo_scraper (Some (client_of (Parses demo_extraction) CallFails))) 3 = Inr out
     \<and> totalFacts (metadata_json out) = 4
     \<and> length (categories_json out) = 2
     \<and> list_all (\<lambda>c. factCount c = 0) (categories_json out)"
proof -
  let ?sc = "demo_scraper (Some (client_of (Parses demo_extraction) CallFails))"
  obtain out where b: "build_knowledge_base demo_lib ?sc 3 = Inr out"
    and f: "totalFacts (metadata_json out) = 4" and n: "length (categories_json out) = 2"
    by (simp add: fetch_defs demo_defs run_defs Let_def)
  from fact_count_stays_zero [of _ demo_lib ?sc _ _ _ _ _ 3 out] b
  have "\<forall>c \<in> set (categories_json out). factCount c = 0" by blast
  then have "list_all (\<lambda>c. factCount c = 0) (categories_json out)"
    by (simp add: list_all_iff)
  then show ?thesis using b f n by blast
qed

section \<open>Which items become business records\<close>

text \<open>
  What the two business loops (they differ in the description prefix only) do with one
  item: a record is appended exactly when the item is a dict whose \<open>name\<close> is a
  string that is not empty and can be encoded; an item that is not a dict, and a dict
  whose name is missing or falsy, is passed over without any effect.
\<close>

lemma business_appended_iff:
  "(\<exists>r. businesses_loop lib v pre [biz] acc = Inr (acc @ [r])) \<longleftrightarrow>
   (\<exists>kv s. biz = JObj kv \<and> map_of kv ''name'' = Some (JStr s) \<and> s \<noteq> []
      \<and> \<not> has_surrogate s)"
proof
  assume "\<exists>r. businesses_loop lib v pre [biz] acc = Inr (acc @ [r])"
  then obtain r where r: "businesses_loop lib v pre [biz] acc = Inr (acc @ [r])" by blast
  then obtain kv where kv: "biz = JObj kv"
    by (cases biz) (simp_all add: businesses_loop_one)
  have tr: "truthy (dict_get kv ''name'' JNull)"
    using r kv by (simp add: businesses_loop_one split: if_splits)
  then obtain n where n: "map_of kv ''name'' = Some n"
    by (cases "map_of kv ''name''") (simp_all add: dict_get_def)
  have "\<exists>i. generate_id lib n = Inr i"
    using r kv tr n by (auto simp: businesses_loop_one dict_get_def and_then_Inr_iff)
  then obtain s where s: "n = JStr s" and enc: "\<not> has_surrogate s"
    using generate_id_Inr by blast
  have "s \<noteq> []" using tr n s by (simp add: dict_get_def)
  then show "\<exists>kv s. biz = JObj kv \<and> map_of kv ''name'' = Some (JStr s) \<and> s \<noteq> []
      \<and> \<not> has_surrogate s"
    using kv n s enc by blast
next
  assume "\<exists>kv s. biz = JObj kv \<and> map_of kv ''name'' = Some (JStr s) \<and> s \<noteq> []
      \<and> \<not> has_surrogate s"
  then obtain kv s where "biz = JObj kv" "map_of kv ''name'' = Some (JStr s)" "s \<noteq> []"
    "\<not> has_surrogate s"
    by blast
  then show "\<exists>r. businesses_loop lib v pre [biz] acc = Inr (acc @ [r])"
    by (simp add: businesses_loop_one dict_get_def str_encode_def)
qed

lemma business_dropped:
  assumes "\<not> isinstance_dict biz \<or>
           (\<exists>kv. biz = JObj kv \<and> \<not> truthy (dict_get kv ''name'' JNull))"
  shows "businesses_loop lib v pre (biz # bizs) acc = businesses_loop lib v pre bizs acc"
  using assms by (cases biz) auto

text \<open>
  C10. The claim gives a record to every dict whose name is present and not empty. The
  code meets it for names that are strings it can encode, and misses it otherwise: a name
  that is truthy and not a string (a number, a list) passes the guard, and
  \<^verbatim>\<open>generate_id\<close> then calls \<^verbatim>\<open>encode\<close> on it and raises AttributeError; a
  name string with a lone surrogate raises UnicodeEncodeError. Nothing catches either, in
  either loop, so no record is appended, the item is not passed over, and the run ends
  without writing anything.
\<close>

theorem business_name_not_string_raises:
  "businesses_loop lib v pre (JObj [(''name'', JInt 5)] # bizs) acc = Inl AttributeError
   \<and> businesses_loop lib v pre
        (JObj [(''name'', JArr [JStr ''Kenai Charters''])] # bizs) acc = Inl AttributeError
   \<and> businesses_loop lib v pre
        (JObj [(''name'', JStr [CHR 0xED, CHR 0xA0, CHR 0x80])] # bizs) acc
        = Inl UnicodeEncodeError
   \<and> process_video demo_lib
        (demo_scraper (Some (client_of
           (Parses (JObj [(''businesses_mentioned'', JArr [JObj [(''name'', JInt 5)]])]))
           CallFails)))
        empty_state (demo_video ''vid1'' ''Trip'' ''snow'') = Inl AttributeError
   \<and> build_knowledge_base demo_lib
        (demo_scraper (Some (client_of Unparseable
           (Parses (JArr [JObj [(''name'', JInt 5)]]))))) 3 = Inl AttributeError"
proof (intro conjI)
  show "businesses_loop lib v pre (JObj [(''name'', JInt 5)] # bizs) acc = Inl AttributeError"
    by (simp add: dict_get_def)
  show "businesses_loop lib v pre
        (JObj [(''name'', JArr [JStr ''Kenai Charters''])] # bizs) acc = Inl AttributeError"
    by (simp add: dict_get_def)
  show "businesses_loop lib v pre
        (JObj [(''name'', JStr [CHR 0xED, CHR 0xA0, CHR 0x80])] # bizs) acc
        = Inl UnicodeEncodeError"
    by (simp add: dict_get_def str_encode_def)
  show "process_video demo_lib
        (demo_scraper (Some (client_of
           (Parses (JObj [(''businesses_mentioned'', JArr [JObj [(''name'', JInt 5)]])]))
           CallFails)))
        empty_state (demo_video ''vid1'' ''Trip'' ''snow'') = Inl AttributeError"
    by (simp add: demo_defs run_defs Let_def)
  show "build_knowledge_base demo_lib
        (demo_scraper (Some (client_of Unparseable
           (Parses (JArr [JObj [(''name'', JInt 5)]]))))) 3 = Inl AttributeError"
    by (simp add: fetch_defs demo_defs run_defs Let_def)
qed

section \<open>Ids are hashes of the designated field\<close>

text \<open>
  C4. The id generator is a function of the content string: whenever it yields an id, the
  id is the first 12 characters of the digest of that string, so equal strings get equal
  ids. For two business records, one appended by the transcript-derived loop and one by
  the description-derived loop, each id is the hash of the record's name, so equal names
  give equal ids and different ids need different names. Nothing is merged: the second
  loop appends its record after the first one's, whatever the names.
\<close>

theorem business_ids_follow_names:
  assumes "businesses_loop lib v1 ''Mentioned in '' [b1] acc1 = Inr (acc1 @ [r1])"
    and "businesses_loop lib v2 ''From video description: '' [b2] acc2 = Inr (acc2 @ [r2])"
  shows "generate_id lib (biz_name r1) = Inr (biz_id r1)
    \<and> generate_id lib (biz_name r2) = Inr (biz_id r2)
    \<and> (biz_name r1 = biz_name r2 \<longrightarrow> biz_id r1 = biz_id r2)
    \<and> (biz_id r1 \<noteq> biz_id r2 \<longrightarrow> biz_name r1 \<noteq> biz_name r2)
    \<and> businesses_loop lib v2 ''From video description: '' [b2] (acc2 @ [r1]) = Inr (acc2 @ [r1, r2])
    \<and> (\<forall>c i. generate_id lib c = Inr i \<longrightarrow>
          (\<exists>s. c = JStr s \<and> i = take 12 (md5_hexdigest lib s)))"
proof -
  have one: "generate_id lib (biz_name r) = Inr (biz_id r)
        \<and> businesses_loop lib v pre [b] acc' = Inr (acc' @ [r])"
    if "businesses_loop lib v pre [b] acc = Inr (acc @ [r])" for v pre b acc acc' r
  proof -
    from that obtain kv where kv: "b = JObj kv"
      by (cases b) (simp_all add: businesses_loop_one)
    have tr: "truthy (dict_get kv ''name'' JNull)"
      using that kv by (simp add: businesses_loop_one split: if_splits)
    from that kv tr obtain i where i: "generate_id lib (dict_get kv ''name'' (JStr [])) = Inr i"
      and r: "r = \<lparr>biz_id = i,
                   biz_name = dict_get kv ''name'' (JStr []),
                   biz_type = dict_get kv ''type'' (JStr ''other''),
                   location = dict_get kv ''location'' (JStr []),
                   contact = dict_get kv ''contact'' (JStr []),
                   website = dict_get kv ''website'' (JStr []),
                   videoReferences = [(video_id v, title v)],
                   biz_description = pre @ title v\<rparr>"
      by (auto simp: businesses_loop_one and_then_Inr_iff)
    show ?thesis using kv tr i r by (simp add: businesses_loop_one)
  qed
  have g1: "generate_id lib (biz_name r1) = Inr (biz_id r1)"
    using one [OF assms(1)] by blast
  have g2: "generate_id lib (biz_name r2) = Inr (biz_id r2)"
    using one [OF assms(2)] by blast
  have app: "businesses_loop lib v2 ''From video description: '' [b2] (acc2 @ [r1])
      = Inr (acc2 @ [r1, r2])"
    using one [OF assms(2), of "acc2 @ [r1]"] by simp
  have eq: "biz_name r1 = biz_name r2 \<longrightarrow> biz_id r1 = biz_id r2"
    using g1 g2 by auto
  have gid: "\<forall>c i. generate_id lib c = Inr i \<longrightarrow>
          (\<exists>s. c = JStr s \<and> i = take 12 (md5_hexdigest lib s))"
    using generate_id_Inr by blast
  show ?thesis using g1 g2 app eq gid by blast
qed

theorem business_ids_follow_names_witness:
  "businesses_loop demo_lib (demo_video ''vid3'' ''Halibut'' ''Kenai Charters'')
      ''From video description: '' [JObj [(''name'', JStr ''Kenai Charters'')]]
      [\<lparr>biz_id = ''3d94914db8a0'', biz_name = JStr ''Kenai Charters'',
        biz_type = JStr ''other'', location = JStr [], contact = JStr [], website = JStr [],
        videoReferences = [(''vid1'', ''Trip'')], biz_description = ''Mentioned in Trip''\<rparr>]
    = Inr [\<lparr>biz_id = ''3d94914db8a0'', biz_name = JStr ''Kenai Charters'',
        biz_type = JStr ''other'', location = JStr [], contact = JStr [], website = JStr [],
        videoReferences = [(''vid1'', ''Trip'')], biz_description = ''Mentioned in Trip''\<rparr>,
       \<lparr>biz_id = ''3d94914db8a0'', biz_name = JStr ''Kenai Charters'',
        biz_type = JStr ''other'', location = JStr [], contact = JStr [], website = JStr [],
        videoReferences = [(''vid3'', ''Halibut'')],
        biz_description = ''From video description: Halibut''\<rparr>]"
proof -
  let ?r1 = "\<lparr>biz_id = ''3d94914db8a0'', biz_name = JStr ''Kenai Charters'',
        biz_type = JStr ''other'', location = JStr [], contact = JStr [], website = JStr [],
        videoReferences = [(''vid1'', ''Trip'')], biz_description = ''Mentioned in Trip''\<rparr>"
  let ?r2 = "\<lparr>biz_id = ''3d94914db8a0'', biz_name = JStr ''Kenai Charters'',
        biz_type = JStr ''other'', location = JStr [], contact = JStr [], website = JStr [],
        videoReferences = [(''vid3'', ''Halibut'')],
        biz_description = ''From video description: Halibut''\<rparr>"
  have a: "businesses_loop demo_lib (demo_video ''vid1'' ''Trip'' ''snow'') ''Mentioned in ''
      [JObj [(''name'', JStr ''Kenai Charters'')]] [] = Inr ([] @ [?r1])"
    by (simp add: dict_get_def str_encode_def demo_lib_def demo_md5_def demo_video_def)
  have b: "businesses_loop demo_lib (demo_video ''vid3'' ''Halibut'' ''Kenai Charters'')
      ''From video description: '' [JObj [(''name'', JStr ''Kenai Charters'')]] [] = Inr ([] @ [?r2])"
    by (simp add: dict_get_def str_encode_def demo_lib_def demo_md5_def demo_video_def)
  from business_ids_follow_names [OF a b]
  have "businesses_loop demo_lib (demo_video ''vid3'' ''Halibut'' ''Kenai Charters'')
      ''From video description: '' [JObj [(''name'', JStr ''Kenai Charters'')]] ([] @ [?r1])
      = Inr ([] @ [?r1, ?r2])"
    by blast
  then show ?thesis by simp
qed

end
